theory Spec2Isabelle
  imports Main
begin

section \<open>The x402 donation endpoint\<close>

text \<open>
  A shallow embedding of the route \<^verbatim>\<open>/api/donate/$recipient/$network\<close>: the network table,
  \<^verbatim>\<open>buildPaymentRequirements\<close>, \<^verbatim>\<open>createPaymentRequiredResponse\<close>, the GET and the POST
  handler, and \<^verbatim>\<open>getServerEnv\<close>. JavaScript strings are modelled as HOL strings (code
  units 0 to 255, the range \<^verbatim>\<open>btoa\<close> accepts). Console output is not modelled.
\<close>

subsection \<open>Numbers\<close>

text \<open>
  A JavaScript number is an IEEE double. The handlers only ever hold the results of
  \<^verbatim>\<open>Number.parseInt\<close> and products of those with 10000: integer-valued doubles, NaN and the
  two infinities. \<open>Fin i\<close> stands for the double whose value is the integer \<open>i\<close>
  (the two zeros are not told apart: the handlers print and compare them alike).
\<close>

datatype jsnum = NaN | PosInf | NegInf | Fin int

text \<open>
  Integers are kept as \<open>int\<close> throughout (also where they are never negative), exponents
  and lengths as \<open>nat\<close>.
\<close>

function bit_length :: "int \<Rightarrow> nat" where
  "bit_length n = (if n \<le> 0 then 0 else Suc (bit_length (n div 2)))"
  by pat_completeness auto
termination
  by (relation "measure nat") auto

declare bit_length.simps [simp del]

text \<open>
  Rounding of a non-negative integer to the nearest number with a 53-bit significand,
  ties to the even significand: what every arithmetic operation on doubles does to its
  exact result. \<open>round_div_even num den\<close> is the integer nearest to \<open>num / den\<close>.
\<close>

definition round_div_even :: "int \<Rightarrow> int \<Rightarrow> int" where
  "round_div_even num den =
     (let s = num div den; r = num mod den in
      if 2 * r < den then s
      else if den < 2 * r then s + 1
      else if even s then s
      else s + 1)"

definition round_nearest_even :: "int \<Rightarrow> int" where
  "round_nearest_even m =
     (let b = bit_length m in
      if b \<le> 53 then m
      else let q = 2 ^ (b - 53) in round_div_even m q * q)"

text \<open>The largest double is \<open>2 ^ 1024 - 2 ^ 971\<close>; what rounds to \<open>2 ^ 1024\<close> is infinite.\<close>

definition to_double :: "int \<Rightarrow> jsnum" where
  "to_double i =
     (let m = round_nearest_even \<bar>i\<bar> in
      if 2 ^ 1024 \<le> m then (if i < 0 then NegInf else PosInf)
      else if i < 0 then Fin (- m)
      else Fin m)"

text \<open>\<^verbatim>\<open>x * 10000\<close> and \<^verbatim>\<open>x < 1\<close>.\<close>

definition times_10000 :: "jsnum \<Rightarrow> jsnum" where
  "times_10000 x =
     (case x of NaN \<Rightarrow> NaN | PosInf \<Rightarrow> PosInf | NegInf \<Rightarrow> NegInf
      | Fin i \<Rightarrow> to_double (i * 10000))"

definition less_than_1 :: "jsnum \<Rightarrow> bool" where
  "less_than_1 x =
     (case x of NaN \<Rightarrow> False | PosInf \<Rightarrow> False | NegInf \<Rightarrow> True | Fin i \<Rightarrow> i < 1)"

subsection \<open>Decimal strings\<close>

definition digit_char :: "int \<Rightarrow> char" where
  "digit_char d = ''0123456789'' ! nat d"

text \<open>The decimal digits of a non-negative integer.\<close>

function dec_string :: "int \<Rightarrow> string" where
  "dec_string n =
     (if n < 10 then [digit_char n] else dec_string (n div 10) @ [digit_char (n mod 10)])"
  by pat_completeness auto
termination
  by (relation "measure nat") auto

declare dec_string.simps [simp del]

text \<open>
  \<^verbatim>\<open>Number.prototype.toString\<close> prints the shortest decimal \<open>s * 10 ^ j\<close> that rounds to
  the double; if there are several, the nearest one to it, and of two equally near ones
  the one with \<open>s\<close> even. \<open>shortest_decimal_from x j\<close> tries
  the multiples of \<open>10 ^ j\<close> on both sides of \<open>x\<close>, with fewer trailing zeros at each step;
  the multiple of \<open>1\<close> is \<open>x\<close> itself.
\<close>

primrec shortest_decimal_from :: "int \<Rightarrow> nat \<Rightarrow> int" where
  "shortest_decimal_from x 0 = x"
| "shortest_decimal_from x (Suc j) =
     (let p = 10 ^ Suc j; lo = (x div p) * p; hi = lo + p in
      if round_nearest_even lo = x \<and> round_nearest_even hi = x
      then (if x - lo < hi - x then lo
            else if hi - x < x - lo then hi
            else if even (x div p) then lo
            else hi)
      else if round_nearest_even lo = x then lo
      else if round_nearest_even hi = x then hi
      else shortest_decimal_from x j)"

definition shortest_decimal :: "int \<Rightarrow> int" where
  "shortest_decimal x = shortest_decimal_from x (length (dec_string x) - 1)"

function strip_zeros :: "int \<Rightarrow> int" where
  "strip_zeros n = (if n \<le> 0 \<or> n mod 10 \<noteq> 0 then n else strip_zeros (n div 10))"
  by pat_completeness auto
termination
  by (relation "measure nat") auto

declare strip_zeros.simps [simp del]

text \<open>
  The printed form of a positive integer-valued double: plain digits below \<open>10 ^ 21\<close>,
  exponent notation from there on.
\<close>

definition positive_to_string :: "int \<Rightarrow> string" where
  "positive_to_string x =
     (let m = shortest_decimal x in
      if m < 10 ^ 21 then dec_string m
      else
        let ds = dec_string (strip_zeros m); e = dec_string (int (length (dec_string m)) - 1) in
        if length ds = 1 then ds @ ''e+'' @ e
        else take 1 ds @ ''.'' @ drop 1 ds @ ''e+'' @ e)"

definition number_to_string :: "jsnum \<Rightarrow> string" where
  "number_to_string x =
     (case x of NaN \<Rightarrow> ''NaN'' | PosInf \<Rightarrow> ''Infinity'' | NegInf \<Rightarrow> ''-Infinity''
      | Fin i \<Rightarrow>
          if i = 0 then ''0''
          else if i < 0 then ''-'' @ positive_to_string (- i)
          else positive_to_string i)"

text \<open>
  \<^verbatim>\<open>(x / 100).toFixed(2)\<close>. The quotient is the double nearest to \<open>n / 100\<close>;
  \<open>div_100_scaled n\<close> is \<open>2 ^ 60\<close> times that double (an integer, since the quotient is at
  least \<open>1 / 100\<close>). \<^verbatim>\<open>toFixed(2)\<close> prints the nearest multiple of \<open>1 / 100\<close>, the larger
  one on a tie, and falls back on \<^verbatim>\<open>toString\<close> from \<open>10 ^ 21\<close> on.
\<close>

definition div_100_scaled :: "int \<Rightarrow> int" where
  "div_100_scaled n =
     (if n \<le> 0 then 0
      else
        let t = n * 2 ^ 60; q = 2 ^ (bit_length (t div 100) - 53) in
        round_div_even t (100 * q) * q)"

definition fixed_2 :: "int \<Rightarrow> string" where
  "fixed_2 m =
     (let ds = dec_string m;
          padded = replicate (3 - length ds) CHR ''0'' @ ds;
          k = length padded - 2
      in take k padded @ ''.'' @ drop k padded)"

definition positive_div_100_to_fixed_2 :: "int \<Rightarrow> string" where
  "positive_div_100_to_fixed_2 n =
     (let y = div_100_scaled n in
      if 10 ^ 21 * 2 ^ 60 \<le> y then positive_to_string (y div 2 ^ 60)
      else fixed_2 ((200 * y + 2 ^ 60) div 2 ^ 61))"

definition div_100_to_fixed_2 :: "jsnum \<Rightarrow> string" where
  "div_100_to_fixed_2 x =
     (case x of NaN \<Rightarrow> ''NaN'' | PosInf \<Rightarrow> ''Infinity'' | NegInf \<Rightarrow> ''-Infinity''
      | Fin i \<Rightarrow>
          if i < 0 then ''-'' @ positive_div_100_to_fixed_2 (- i)
          else positive_div_100_to_fixed_2 i)"

subsection \<open>\<^verbatim>\<open>Number.parseInt(string, 10)\<close>\<close>

text \<open>
  Leading white space is skipped, one sign is read, then the longest run of decimal
  digits; what follows the digits is ignored, and no digit at all gives NaN. The value is
  rounded to a double (ECMAScript lets an implementation zero the digits after the
  twentieth before it rounds; the model rounds the exact value).
\<close>

definition is_white_space :: "char \<Rightarrow> bool" where
  "is_white_space c =
     (c \<in> set [CHR 0x09, CHR 0x0A, CHR 0x0B, CHR 0x0C, CHR 0x0D, CHR 0x20, CHR 0xA0])"

definition is_digit :: "char \<Rightarrow> bool" where
  "is_digit c = (c \<in> set ''0123456789'')"

definition digit_value :: "char \<Rightarrow> int" where
  "digit_value c = of_char c - 48"

definition digits_value :: "string \<Rightarrow> int" where
  "digits_value ds = foldl (\<lambda>acc c. acc * 10 + digit_value c) 0 ds"

definition parseInt :: "string \<Rightarrow> jsnum" where
  "parseInt input =
     (let s = dropWhile is_white_space input;
          negative = (case s of [] \<Rightarrow> False | c # _ \<Rightarrow> c = CHR ''-'');
          unsigned = (case s of [] \<Rightarrow> []
                      | c # rest \<Rightarrow> if c = CHR ''+'' \<or> c = CHR ''-'' then rest else s);
          z = takeWhile is_digit unsigned
      in if z = [] then NaN
         else if negative then to_double (- digits_value z)
         else to_double (digits_value z))"

subsection \<open>Values and JSON\<close>

text \<open>
  The values the handlers read from parsed JSON and put into the objects they serialise.
  An object is the list of its own properties in insertion order. \<open>JUndefined\<close> is what
  reading a missing property gives; \<^verbatim>\<open>JSON.stringify\<close> leaves a property out whose value
  it is.
\<close>

datatype json =
    JUndefined
  | JNull
  | JBool bool
  | JNum jsnum
  | JStr string
  | JArr "json list"
  | JObj "(string \<times> json) list"

text \<open>What \<^verbatim>\<open>!v\<close>, \<^verbatim>\<open>v ? a : b\<close> and \<^verbatim>\<open>v || w\<close> test.\<close>

fun truthy :: "json \<Rightarrow> bool" where
  "truthy JUndefined = False"
| "truthy JNull = False"
| "truthy (JBool b) = b"
| "truthy (JNum n) = (n \<noteq> NaN \<and> n \<noteq> Fin 0)"
| "truthy (JStr s) = (s \<noteq> [])"
| "truthy (JArr xs) = True"
| "truthy (JObj kvs) = True"

text \<open>
  \<^verbatim>\<open>v.name\<close> for the names the handler reads (\<^verbatim>\<open>isValid\<close>, \<^verbatim>\<open>invalidReason\<close>,
  \<^verbatim>\<open>success\<close>, \<^verbatim>\<open>errorReason\<close>, \<^verbatim>\<open>transaction\<close>: none of them is on a prototype).
  Reading a property of \<^verbatim>\<open>null\<close> or \<^verbatim>\<open>undefined\<close> throws a TypeError: \<open>None\<close>.
\<close>

fun get_property :: "json \<Rightarrow> string \<Rightarrow> json option" where
  "get_property JUndefined name = None"
| "get_property JNull name = None"
| "get_property (JObj kvs) name =
     (case map_of kvs name of None \<Rightarrow> Some JUndefined | Some v \<Rightarrow> Some v)"
| "get_property v name = Some JUndefined"

definition hex_digit :: "int \<Rightarrow> char" where
  "hex_digit d = ''0123456789abcdef'' ! nat d"

text \<open>\<^verbatim>\<open>JSON.stringify\<close> of a string: quotes, with the escapes of QuoteJSONString.\<close>

definition quote_char :: "char \<Rightarrow> string" where
  "quote_char c =
     (if c = CHR 0x08 then [CHR 0x5C, CHR ''b'']
      else if c = CHR 0x09 then [CHR 0x5C, CHR ''t'']
      else if c = CHR 0x0A then [CHR 0x5C, CHR ''n'']
      else if c = CHR 0x0C then [CHR 0x5C, CHR ''f'']
      else if c = CHR 0x0D then [CHR 0x5C, CHR ''r'']
      else if c = CHR 0x22 then [CHR 0x5C, CHR 0x22]
      else if c = CHR 0x5C then [CHR 0x5C, CHR 0x5C]
      else if (of_char c :: int) < 32
        then [CHR 0x5C, CHR ''u'', CHR ''0'', CHR ''0'',
              hex_digit (of_char c div 16), hex_digit (of_char c mod 16)]
      else [c])"

definition quote :: "string \<Rightarrow> string" where
  "quote s = [CHR 0x22] @ concat (map quote_char s) @ [CHR 0x22]"

fun join :: "string \<Rightarrow> string list \<Rightarrow> string" where
  "join sep [] = []"
| "join sep [x] = x"
| "join sep (x # y # rest) = x @ sep @ join sep (y # rest)"

text \<open>The members of an object: a property whose value serialises to nothing is skipped.\<close>

fun members :: "(string \<times> string option) list \<Rightarrow> string list" where
  "members [] = []"
| "members ((k, None) # rest) = members rest"
| "members ((k, Some v) # rest) = (quote k @ '':'' @ v) # members rest"

definition element :: "string option \<Rightarrow> string" where
  "element e = (case e of None \<Rightarrow> ''null'' | Some v \<Rightarrow> v)"

text \<open>
  \<^verbatim>\<open>JSON.stringify(v)\<close>, \<open>None\<close> where it returns \<^verbatim>\<open>undefined\<close>. A number that is not
  finite is printed as \<^verbatim>\<open>null\<close>.
\<close>

primrec JSON_stringify :: "json \<Rightarrow> string option" where
  "JSON_stringify JUndefined = None"
| "JSON_stringify JNull = Some ''null''"
| "JSON_stringify (JBool b) = Some (if b then ''true'' else ''false'')"
| "JSON_stringify (JNum n) =
     Some (case n of Fin i \<Rightarrow> number_to_string (Fin i) | _ \<Rightarrow> ''null'')"
| "JSON_stringify (JStr s) = Some (quote s)"
| "JSON_stringify (JArr xs) =
     Some (''['' @ join '','' (map element (map JSON_stringify xs)) @ '']'')"
| "JSON_stringify (JObj kvs) =
     Some (''{'' @ join '','' (members (map (map_prod id JSON_stringify) kvs)) @ ''}'')"

text \<open>\<^verbatim>\<open>JSON.stringify\<close> of an object literal: always a string.\<close>

definition stringify_object :: "(string \<times> json) list \<Rightarrow> string" where
  "stringify_object kvs =
     ''{'' @ join '','' (members (map (map_prod id JSON_stringify) kvs)) @ ''}''"

subsection \<open>\<^verbatim>\<open>btoa\<close>\<close>

definition base64_char :: "int \<Rightarrow> char" where
  "base64_char n =
     ''ABCDEFGHIJKLMNOPQRSTUVWXYZabcdefghijklmnopqrstuvwxyz0123456789+/'' ! nat n"

fun base64 :: "int list \<Rightarrow> string" where
  "base64 [] = []"
| "base64 [a] =
     [base64_char (a div 4), base64_char (a mod 4 * 16), CHR ''='', CHR ''='']"
| "base64 [a, b] =
     [base64_char (a div 4), base64_char (a mod 4 * 16 + b div 16),
      base64_char (b mod 16 * 4), CHR ''='']"
| "base64 (a # b # c # rest) =
     [base64_char (a div 4), base64_char (a mod 4 * 16 + b div 16),
      base64_char (b mod 16 * 4 + c div 64), base64_char (c mod 64)] @ base64 rest"

definition btoa :: "string \<Rightarrow> string" where
  "btoa s = base64 (map of_char s)"

subsection \<open>The network table\<close>

record eip712_domain =
  eip712_name :: string
  eip712_version :: string

record network_config =
  chainId :: int
  chainIdCAIP :: string
  config_asset :: string
  config_name :: string
  eip712 :: eip712_domain

text \<open>
  \<^verbatim>\<open>NETWORK_CONFIG[network]\<close>. The table is an object literal, so a name that is not one of
  its four keys but is a property of \<^verbatim>\<open>Object.prototype\<close> finds that property: a function
  or object, which \<^verbatim>\<open>!\<close> takes for true and which has no \<^verbatim>\<open>eip712\<close>.
  (The fields \<^verbatim>\<open>asset\<close> and \<^verbatim>\<open>name\<close> of an entry are \<open>config_asset\<close> and \<open>config_name\<close>
  here, \<^verbatim>\<open>eip712.name\<close> and \<^verbatim>\<open>eip712.version\<close> are \<open>eip712_name\<close> and \<open>eip712_version\<close>.)
\<close>

datatype lookup = Own network_config | Inherited | Missing

definition object_prototype_names :: "string list" where
  "object_prototype_names =
     [''constructor'', ''__defineGetter__'', ''__defineSetter__'', ''hasOwnProperty'',
      ''__lookupGetter__'', ''__lookupSetter__'', ''isPrototypeOf'',
      ''propertyIsEnumerable'', ''toString'', ''valueOf'', ''__proto__'',
      ''toLocaleString'']"

definition NETWORK_CONFIG :: "string \<Rightarrow> lookup" where
  "NETWORK_CONFIG network =
     (if network = ''base-sepolia'' then
        Own \<lparr>chainId = 84532, chainIdCAIP = ''eip155:84532'',
             config_asset = ''0x036CbD53842c5426634e7929541eC2318f3dCF7e'',
             config_name = ''Base Sepolia'',
             eip712 = \<lparr>eip712_name = ''USDC'', eip712_version = ''2''\<rparr>\<rparr>
      else if network = ''base'' then
        Own \<lparr>chainId = 8453, chainIdCAIP = ''eip155:8453'',
             config_asset = ''0x833589fCD6eDb6E08f4c7C32D4f71b54bdA02913'',
             config_name = ''Base'',
             eip712 = \<lparr>eip712_name = ''USD Coin'', eip712_version = ''2''\<rparr>\<rparr>
      else if network = ''sepolia'' then
        Own \<lparr>chainId = 11155111, chainIdCAIP = ''eip155:11155111'',
             config_asset = ''0x1c7D4B196Cb0C7B01d743Fbc6116a902379C7238'',
             config_name = ''Sepolia'',
             eip712 = \<lparr>eip712_name = ''USDC'', eip712_version = ''2''\<rparr>\<rparr>
      else if network = ''mainnet'' then
        Own \<lparr>chainId = 1, chainIdCAIP = ''eip155:1'',
             config_asset = ''0xA0b86991c6218b36c1d19D4a2e9Eb0cE3606eB48'',
             config_name = ''Ethereum'',
             eip712 = \<lparr>eip712_name = ''USD Coin'', eip712_version = ''2''\<rparr>\<rparr>
      else if network \<in> set object_prototype_names then Inherited
      else Missing)"

subsection \<open>\<^verbatim>\<open>buildPaymentRequirements\<close>\<close>

datatype error = Error string | TypeError | SyntaxError | InvalidCharacterError | FetchRejected

record PaymentRequirement =
  scheme :: string
  network :: string
  amount :: string
  resource :: string
  description :: string
  mimeType :: string
  payTo :: string
  maxTimeoutSeconds :: int
  asset :: string
  extra :: "(string \<times> json) list"

text \<open>
  The parameter \<^verbatim>\<open>network\<close> of the source is \<open>network_name\<close> here and in the
  handlers. An inherited table entry passes the test of the first line and fails at
  \<^verbatim>\<open>networkConfig.eip712.name\<close>, a property of \<^verbatim>\<open>undefined\<close>.
\<close>

definition buildPaymentRequirements ::
    "string \<Rightarrow> string \<Rightarrow> jsnum \<Rightarrow> string \<Rightarrow> error + PaymentRequirement list" where
  "buildPaymentRequirements recipient network_name amountCents resourceUrl =
     (case NETWORK_CONFIG network_name of
        Missing \<Rightarrow> Inl (Error ''Unsupported network'')
      | Inherited \<Rightarrow> Inl TypeError
      | Own networkConfig \<Rightarrow>
          let amountInUsdcUnits = number_to_string (times_10000 amountCents);
              priceInDollars = div_100_to_fixed_2 amountCents
          in Inr [\<lparr>scheme = ''exact'',
                    network = chainIdCAIP networkConfig,
                    amount = amountInUsdcUnits,
                    resource = resourceUrl,
                    description = ''Donation of $'' @ priceInDollars @ '' to '' @ recipient,
                    mimeType = ''application/json'',
                    payTo = recipient,
                    maxTimeoutSeconds = 300,
                    asset = config_asset networkConfig,
                    extra = [(''name'', JStr (eip712_name (eip712 networkConfig))),
                             (''version'', JStr (eip712_version (eip712 networkConfig)))]\<rparr>])"

text \<open>The requirement as the object it is, its properties in the order of the literal.\<close>

definition requirement_json :: "PaymentRequirement \<Rightarrow> json" where
  "requirement_json r =
     JObj [(''scheme'', JStr (scheme r)),
           (''network'', JStr (network r)),
           (''amount'', JStr (amount r)),
           (''resource'', JStr (resource r)),
           (''description'', JStr (description r)),
           (''mimeType'', JStr (mimeType r)),
           (''payTo'', JStr (payTo r)),
           (''maxTimeoutSeconds'', JNum (Fin (maxTimeoutSeconds r))),
           (''asset'', JStr (asset r)),
           (''extra'', JObj (extra r))]"

subsection \<open>Responses\<close>

record response =
  status :: int
  headers :: "(string \<times> string) list"
  body :: string

text \<open>\<^verbatim>\<open>Response.json(data, {status})\<close> for an object literal \<open>data\<close>.\<close>

definition Response_json :: "(string \<times> json) list \<Rightarrow> int \<Rightarrow> response" where
  "Response_json data st =
     \<lparr>status = st, headers = [(''Content-Type'', ''application/json'')],
      body = stringify_object data\<rparr>"

definition createPaymentRequiredResponse :: "PaymentRequirement list \<Rightarrow> response" where
  "createPaymentRequiredResponse paymentRequirements =
     (let paymentRequired =
            [(''x402Version'', JNum (Fin 2)),
             (''accepts'', JArr (map requirement_json paymentRequirements)),
             (''error'', JStr ''Payment Required'')];
          encodedPaymentRequired = btoa (stringify_object paymentRequired)
      in \<lparr>status = 402,
          headers = [(''Content-Type'', ''application/json''),
                     (''PAYMENT-REQUIRED'', encodedPaymentRequired)],
          body = stringify_object [(''error'', JStr ''Payment Required'')]\<rparr>)"

subsection \<open>Requests\<close>

text \<open>
  What a handler reads of the request: \<^verbatim>\<open>request.url\<close>, the value of
  \<^verbatim>\<open>searchParams.get("amount")\<close> (\<open>None\<close> for \<^verbatim>\<open>null\<close>), and the header list.
\<close>

record request =
  url :: string
  amount_param :: "string option"
  request_headers :: "(string \<times> string) list"

definition to_lower :: "char \<Rightarrow> char" where
  "to_lower c =
     (case map_of (zip ''ABCDEFGHIJKLMNOPQRSTUVWXYZ'' ''abcdefghijklmnopqrstuvwxyz'') c of
        None \<Rightarrow> c | Some l \<Rightarrow> l)"

text \<open>
  \<^verbatim>\<open>headers.get(name)\<close>: header names match whatever their case; the values of a repeated
  header are joined.
\<close>

definition headers_get :: "(string \<times> string) list \<Rightarrow> string \<Rightarrow> string option" where
  "headers_get hs name =
     (case filter (\<lambda>h. map to_lower (fst h) = map to_lower name) hs of
        [] \<Rightarrow> None
      | h # rest \<Rightarrow> Some (join '', '' (map snd (h # rest))))"

text \<open>\<^verbatim>\<open>a || b\<close> on what \<^verbatim>\<open>get\<close> returns: \<^verbatim>\<open>null\<close> and the empty string are false.\<close>

definition present :: "string option \<Rightarrow> bool" where
  "present a = (case a of None \<Rightarrow> False | Some s \<Rightarrow> s \<noteq> [])"

definition or_else :: "string option \<Rightarrow> string option \<Rightarrow> string option" where
  "or_else a b = (if present a then a else b)"

definition amountCents_of :: "request \<Rightarrow> jsnum" where
  "amountCents_of req = parseInt (the (or_else (amount_param req) (Some ''100'')))"

definition is_hex :: "char \<Rightarrow> bool" where
  "is_hex c = (c \<in> set ''abcdefABCDEF0123456789'')"

text \<open>\<^verbatim>\<open>/^0x[a-fA-F0-9]{40}$/.test(recipient)\<close>\<close>

definition valid_recipient :: "string \<Rightarrow> bool" where
  "valid_recipient recipient =
     (length recipient = 42 \<and> take 2 recipient = ''0x'' \<and> list_all is_hex (drop 2 recipient))"

subsection \<open>The GET handler\<close>

definition GET :: "string \<Rightarrow> string \<Rightarrow> request \<Rightarrow> error + response" where
  "GET recipient network_name req =
     (let amountCents = amountCents_of req in
      if \<not> valid_recipient recipient
        then Inr (Response_json [(''error'', JStr ''Invalid recipient address'')] 400)
      else if NETWORK_CONFIG network_name = Missing
        then Inr (Response_json [(''error'', JStr ''Unsupported network'')] 400)
      else if less_than_1 amountCents
        then Inr (Response_json [(''error'', JStr ''Invalid amount'')] 400)
      else
        case buildPaymentRequirements recipient network_name amountCents (url req) of
          Inl e \<Rightarrow> Inl e
        | Inr paymentRequirements \<Rightarrow> Inr (createPaymentRequiredResponse paymentRequirements))"

subsection \<open>The world of the POST handler\<close>

text \<open>
  A call of \<^verbatim>\<open>fetch\<close> and what comes of it: the promise rejects (no connection, a
  timeout, an abort) or resolves with a response of any status.
\<close>

record fetch_call =
  fetch_url :: string
  fetch_method :: string
  fetch_headers :: "(string \<times> string) list"
  fetch_body :: string

datatype fetch_result = Rejects | Resolves response

text \<open>
  What the handler is run against: the process environment, the facilitator behind
  \<^verbatim>\<open>fetch\<close>, and the two parsers of the platform, \<^verbatim>\<open>atob\<close> and \<^verbatim>\<open>JSON.parse\<close>, each
  \<open>None\<close> where it throws. They are parameters of the model: every theorem holds for
  whatever they are.
\<close>

record platform =
  process_env :: "string \<Rightarrow> string option"
  atob :: "string \<Rightarrow> string option"
  JSON_parse :: "string \<Rightarrow> json option"
  fetch :: "fetch_call \<Rightarrow> fetch_result"

text \<open>
  \<^verbatim>\<open>getServerEnv\<close> of \<^verbatim>\<open>env.ts\<close>: an object with the one property
  \<^verbatim>\<open>FACILITATOR_URL\<close>, the variable of that name or, where it is not set, the default.
\<close>

definition getServerEnv :: "(string \<Rightarrow> string option) \<Rightarrow> (string \<times> string) list" where
  "getServerEnv env =
     [(''FACILITATOR_URL'',
       case env ''FACILITATOR_URL'' of
         None \<Rightarrow> ''https://x402.org/facilitator''
       | Some v \<Rightarrow> v)]"

text \<open>
  A facilitator call. The handler destructures \<^verbatim>\<open>FACILITATOR_URL\<close> and
  \<^verbatim>\<open>FACILITATOR_API_KEY\<close> from \<^verbatim>\<open>getServerEnv()\<close> once, builds the headers once
  (with \<^verbatim>\<open>X-API-KEY\<close> where the key is neither \<^verbatim>\<open>undefined\<close> nor empty) and uses both
  for \<^verbatim>\<open>fetch(`${FACILITATOR_URL}/verify`, ...)\<close> and for
  \<^verbatim>\<open>fetch(`${FACILITATOR_URL}/settle`, ...)\<close>; \<open>path\<close> is \<open>''/verify''\<close> or \<open>''/settle''\<close>.
\<close>

definition template_text :: "string option \<Rightarrow> string" where
  "template_text v = (case v of None \<Rightarrow> ''undefined'' | Some t \<Rightarrow> t)"

definition facilitator_call :: "platform \<Rightarrow> string \<Rightarrow> string \<Rightarrow> fetch_call" where
  "facilitator_call pf path request_body =
     (let env = getServerEnv (process_env pf);
          FACILITATOR_URL = map_of env ''FACILITATOR_URL'';
          FACILITATOR_API_KEY = map_of env ''FACILITATOR_API_KEY'';
          facilitator_headers =
            (if present FACILITATOR_API_KEY
             then [(''Content-Type'', ''application/json''),
                   (''X-API-KEY'', the FACILITATOR_API_KEY)]
             else [(''Content-Type'', ''application/json'')])
      in \<lparr>fetch_url = template_text FACILITATOR_URL @ path, fetch_method = ''POST'',
          fetch_headers = facilitator_headers, fetch_body = request_body\<rparr>)"

definition ok :: "response \<Rightarrow> bool" where
  "ok r = (200 \<le> status r \<and> status r \<le> 299)"

definition nullish :: "json \<Rightarrow> bool" where
  "nullish v = (v = JNull \<or> v = JUndefined)"

text \<open>\<^verbatim>\<open>v.name\<close> where \<open>v\<close> is not nullish.\<close>

definition property :: "json \<Rightarrow> string \<Rightarrow> json" where
  "property v name = (case get_property v name of None \<Rightarrow> JUndefined | Some w \<Rightarrow> w)"

text \<open>
  The request body of both facilitator calls:
  \<^verbatim>\<open>{x402Version: 2, paymentPayload, paymentRequirements: paymentRequirements[0]}\<close>.
\<close>

definition facilitator_request_body :: "json \<Rightarrow> PaymentRequirement list \<Rightarrow> string" where
  "facilitator_request_body paymentPayload paymentRequirements =
     stringify_object
       [(''x402Version'', JNum (Fin 2)),
        (''paymentPayload'', paymentPayload),
        (''paymentRequirements'',
         case paymentRequirements of [] \<Rightarrow> JUndefined | r # _ \<Rightarrow> requirement_json r)]"

text \<open>
  The message of the success response. In the source file the literal is
  \<^verbatim>\<open>Thank you for your donation!\<close>, a space, and the bytes C3 A2 CB 9C E2 80 A2: the
  three characters U+00E2, U+02DC and U+2022. The last two are beyond the code units a
  HOL character holds, so the model keeps the message as the bytes that carry it in the
  response body, its UTF-8 encoding (\<^verbatim>\<open>Response.json\<close> writes the JSON text in UTF-8;
  for the code units below 128 of every other literal of the handler the byte is the code
  unit). \<open>utf8\<close> encodes one character below U+10000.
\<close>

definition utf8 :: "int \<Rightarrow> string" where
  "utf8 c =
     (if c < 0x80 then [char_of c]
      else if c < 0x800 then [char_of (0xC0 + c div 64), char_of (0x80 + c mod 64)]
      else [char_of (0xE0 + c div 4096), char_of (0x80 + c div 64 mod 64),
            char_of (0x80 + c mod 64)])"

definition thank_you_characters :: "int list" where
  "thank_you_characters =
     map of_char ''Thank you for your donation! '' @ [0xE2, 0x2DC, 0x2022]"

definition thank_you :: string where
  "thank_you = concat (map utf8 thank_you_characters)"

subsection \<open>The POST handler\<close>

text \<open>
  A handler returns its response (or the exception it lets escape) together with the
  \<^verbatim>\<open>fetch\<close> calls it made, in order. The \<^verbatim>\<open>try\<close> block is in two parts: \<open>settle\<close> is
  step 2 of the source, \<open>redeem\<close> everything before it. An \<open>Inl\<close> of either is an
  exception thrown inside the block, which \<open>catch_block\<close> turns into a response.
\<close>

definition settle ::
    "platform \<Rightarrow> string \<Rightarrow> string \<Rightarrow> string \<Rightarrow> (error + response) \<times> fetch_call list" where
  "settle pf recipient network_name settleRequestBody =
     (let settleCall = facilitator_call pf ''/settle'' settleRequestBody
      in case fetch pf settleCall of
           Rejects \<Rightarrow> (Inl FetchRejected, [settleCall])
         | Resolves settleResponse \<Rightarrow>
             (if \<not> ok settleResponse then
                (Inr (Response_json [(''error'', JStr ''Payment settlement failed''),
                                     (''details'', JStr (body settleResponse))] 500),
                 [settleCall])
              else
                (case JSON_parse pf (body settleResponse) of
                   None \<Rightarrow> (Inl SyntaxError, [settleCall])
                 | Some settleResult \<Rightarrow>
                     (if nullish settleResult then (Inl TypeError, [settleCall])
                      else if \<not> truthy (property settleResult ''success'') then
                        (Inr (Response_json
                                [(''error'', JStr ''Settlement failed''),
                                 (''reason'', property settleResult ''errorReason'')] 500),
                         [settleCall])
                      else
                        (Inr (Response_json
                                [(''success'', JBool True),
                                 (''message'', JStr thank_you),
                                 (''recipient'', JStr recipient),
                                 (''network'', JStr network_name),
                                 (''txHash'', property settleResult ''transaction'')] 200),
                         [settleCall])))))"

definition redeem ::
    "platform \<Rightarrow> string \<Rightarrow> string \<Rightarrow> jsnum \<Rightarrow> string \<Rightarrow> string
      \<Rightarrow> (error + response) \<times> fetch_call list" where
  "redeem pf recipient network_name amountCents request_url paymentHeader =
     (case atob pf paymentHeader of
        None \<Rightarrow> (Inl InvalidCharacterError, [])
      | Some decoded \<Rightarrow>
     (case JSON_parse pf decoded of
        None \<Rightarrow> (Inl SyntaxError, [])
      | Some paymentPayload \<Rightarrow>
     (case buildPaymentRequirements recipient network_name amountCents request_url of
        Inl e \<Rightarrow> (Inl e, [])
      | Inr paymentRequirements \<Rightarrow>
          (let verifyRequestBody = facilitator_request_body paymentPayload paymentRequirements;
               verifyCall = facilitator_call pf ''/verify'' verifyRequestBody
           in case fetch pf verifyCall of
                Rejects \<Rightarrow> (Inl FetchRejected, [verifyCall])
              | Resolves verifyResponse \<Rightarrow>
                  (if \<not> ok verifyResponse then
                     (Inr (Response_json [(''error'', JStr ''Payment verification failed''),
                                          (''details'', JStr (body verifyResponse))] 400),
                      [verifyCall])
                   else
                     (case JSON_parse pf (body verifyResponse) of
                        None \<Rightarrow> (Inl SyntaxError, [verifyCall])
                      | Some verifyResult \<Rightarrow>
                          (if nullish verifyResult then (Inl TypeError, [verifyCall])
                           else if \<not> truthy (property verifyResult ''isValid'') then
                             (Inr (Response_json
                                     [(''error'', JStr ''Invalid payment''),
                                      (''reason'', property verifyResult ''invalidReason'')]
                                     400),
                              [verifyCall])
                           else
                             (let settleRequestBody =
                                    facilitator_request_body paymentPayload paymentRequirements;
                                  settled = settle pf recipient network_name settleRequestBody
                              in (fst settled, verifyCall # snd settled)))))))))"

definition catch_block ::
    "(error + response) \<times> fetch_call list \<Rightarrow> (error + response) \<times> fetch_call list" where
  "catch_block outcome =
     (case outcome of
        (Inl err, calls) \<Rightarrow>
          (Inr (Response_json [(''error'', JStr ''Payment processing failed'')] 500), calls)
      | (Inr r, calls) \<Rightarrow> (Inr r, calls))"

text \<open>
  The payment header is the first of the four reads that is neither \<^verbatim>\<open>null\<close> nor empty.
  Without one the handler builds the requirements and issues the 402 challenge, outside
  the \<^verbatim>\<open>try\<close> block.
\<close>

definition paymentHeader_of :: "request \<Rightarrow> string option" where
  "paymentHeader_of req =
     or_else (or_else (or_else (headers_get (request_headers req) ''PAYMENT-SIGNATURE'')
                               (headers_get (request_headers req) ''payment-signature''))
                      (headers_get (request_headers req) ''X-PAYMENT''))
             (headers_get (request_headers req) ''x-payment'')"

definition POST ::
    "platform \<Rightarrow> string \<Rightarrow> string \<Rightarrow> request \<Rightarrow> (error + response) \<times> fetch_call list" where
  "POST pf recipient network_name req =
     (let amountCents = amountCents_of req in
      if NETWORK_CONFIG network_name = Missing
        then (Inr (Response_json [(''error'', JStr ''Unsupported network'')] 400), [])
      else
        let paymentHeader = paymentHeader_of req in
        if \<not> present paymentHeader then
          (case buildPaymentRequirements recipient network_name amountCents (url req) of
             Inl e \<Rightarrow> (Inl e, [])
           | Inr paymentRequirements \<Rightarrow>
               (Inr (createPaymentRequiredResponse paymentRequirements), []))
        else
          catch_block
            (redeem pf recipient network_name amountCents (url req) (the paymentHeader)))"

subsection \<open>Observing the facilitator calls\<close>

text \<open>
  The address the handler calls: \<^verbatim>\<open>FACILITATOR_URL\<close> as destructured from
  \<^verbatim>\<open>getServerEnv()\<close>. A call is told to be the verify or the settle call by its address,
  \<open>facilitator_url pf @ ''/verify''\<close> or \<open>facilitator_url pf @ ''/settle''\<close>.
\<close>

definition facilitator_url :: "platform \<Rightarrow> string" where
  "facilitator_url pf = template_text (map_of (getServerEnv (process_env pf)) ''FACILITATOR_URL'')"

subsection \<open>A facilitator double\<close>

text \<open>
  A concrete world for the examples: a facilitator at the default address that answers
  every verify call with one fixed outcome and every settle call with another, and the
  values of \<^verbatim>\<open>atob\<close> and \<^verbatim>\<open>JSON.parse\<close> on the few strings the examples use.
\<close>

definition facilitator_double :: "fetch_result \<Rightarrow> fetch_result \<Rightarrow> fetch_call \<Rightarrow> fetch_result" where
  "facilitator_double verify_outcome settle_outcome c =
     (if fetch_url c = ''https://x402.org/facilitator/verify'' then verify_outcome
      else if fetch_url c = ''https://x402.org/facilitator/settle'' then settle_outcome
      else Rejects)"

definition atob_double :: "string \<Rightarrow> string option" where
  \<open>atob_double = map_of [(''eyJ4IjoxfQ=='', ''{"x":1}'')]\<close>

definition JSON_parse_double :: "string \<Rightarrow> json option" where
  \<open>JSON_parse_double =
     map_of
       [(''{"x":1}'', JObj [(''x'', JNum (Fin 1))]),
        (''{"isValid":true}'', JObj [(''isValid'', JBool True)]),
        (''{"isValid":1}'', JObj [(''isValid'', JNum (Fin 1))]),
        (''{"isValid":false,"invalidReason":"expired"}'',
         JObj [(''isValid'', JBool False), (''invalidReason'', JStr ''expired'')]),
        (''{"success":true,"transaction":"0xabc123"}'',
         JObj [(''success'', JBool True), (''transaction'', JStr ''0xabc123'')]),
        (''{"success":false,"errorReason":"insufficient_funds"}'',
         JObj [(''success'', JBool False), (''errorReason'', JStr ''insufficient_funds'')])]\<close>

definition platform_double ::
    "(string \<times> string) list \<Rightarrow> fetch_result \<Rightarrow> fetch_result \<Rightarrow> platform" where
  "platform_double variables verify_outcome settle_outcome =
     \<lparr>process_env = map_of variables, atob = atob_double, JSON_parse = JSON_parse_double,
      fetch = facilitator_double verify_outcome settle_outcome\<rparr>"

definition replies :: "string \<Rightarrow> fetch_result" where
  "replies text = Resolves \<lparr>status = 200, headers = [], body = text\<rparr>"

definition some_recipient :: string where
  "some_recipient = ''0x1111111111111111111111111111111111111111''"

text \<open>
  Facilitators: one that accepts and settles, one whose verify answer carries the number
  1 for \<^verbatim>\<open>isValid\<close>, one that cannot be reached, one that declines, one that fails to
  settle, one that answers 503, and the first again with an API key in the environment.
\<close>

definition settling_facilitator :: platform where
  \<open>settling_facilitator =
     platform_double [] (replies ''{"isValid":true}'')
       (replies ''{"success":true,"transaction":"0xabc123"}'')\<close>

definition lenient_facilitator :: platform where
  \<open>lenient_facilitator =
     platform_double [] (replies ''{"isValid":1}'')
       (replies ''{"success":true,"transaction":"0xabc123"}'')\<close>

definition unreachable_facilitator :: platform where
  "unreachable_facilitator = platform_double [] Rejects Rejects"

definition declining_facilitator :: platform where
  \<open>declining_facilitator =
     platform_double [] (replies ''{"isValid":false,"invalidReason":"expired"}'') Rejects\<close>

definition failing_facilitator :: platform where
  \<open>failing_facilitator =
     platform_double [] (replies ''{"isValid":true}'')
       (replies ''{"success":false,"errorReason":"insufficient_funds"}'')\<close>

definition overloaded_facilitator :: platform where
  "overloaded_facilitator =
     platform_double [] (Resolves \<lparr>status = 503, headers = [], body = ''Service Unavailable''\<rparr>)
       Rejects"

definition keyed_facilitator :: platform where
  \<open>keyed_facilitator =
     platform_double [(''FACILITATOR_API_KEY'', ''secret-key'')] (replies ''{"isValid":true}'')
       (replies ''{"success":true,"transaction":"0xabc123"}'')\<close>

text \<open>A request for 300 cents, without a payment header and with the header of the double.\<close>

definition plain_request :: request where
  "plain_request =
     \<lparr>url = ''https://donate.example/api/donate/0x1111111111111111111111111111111111111111/base?amount=300'',
      amount_param = Some ''300'', request_headers = []\<rparr>"

definition paying_request :: request where
  "paying_request = plain_request\<lparr>request_headers := [(''PAYMENT-SIGNATURE'', ''eyJ4IjoxfQ=='')]\<rparr>"

text \<open>
  Requests with both payment headers, with the legacy header alone, and with an empty
  \<^verbatim>\<open>PAYMENT-SIGNATURE\<close> beside the legacy header.
\<close>

definition both_headers_request :: request where
  "both_headers_request =
     plain_request\<lparr>request_headers :=
       [(''X-Payment'', ''bGVnYWN5''), (''Payment-Signature'', ''eyJ4IjoxfQ=='')]\<rparr>"

definition legacy_request :: request where
  "legacy_request = plain_request\<lparr>request_headers := [(''x-payment'', ''eyJ4IjoxfQ=='')]\<rparr>"

definition empty_signature_request :: request where
  "empty_signature_request =
     plain_request\<lparr>request_headers :=
       [(''PAYMENT-SIGNATURE'', []), (''X-PAYMENT'', ''eyJ4IjoxfQ=='')]\<rparr>"

text \<open>The payload the header of \<open>paying_request\<close> decodes to, and the requirements rebuilt for it.\<close>

definition paying_payload :: json where
  "paying_payload = JObj [(''x'', JNum (Fin 1))]"

definition paying_requirements :: "PaymentRequirement list" where
  "paying_requirements =
     projr (buildPaymentRequirements some_recipient ''base'' (Fin 300) (url plain_request))"

section \<open>Properties\<close>

subsection \<open>Integers below \<open>2 ^ 53\<close> are computed and printed exactly\<close>

lemma bit_length_le: "m < 2 ^ k \<Longrightarrow> bit_length m \<le> k"
proof (induction m arbitrary: k rule: bit_length.induct)
  case (1 n)
  show ?case
  proof (cases "n \<le> 0")
    case True
    then show ?thesis by (simp add: bit_length.simps)
  next
    case False
    then have pos: "0 < n" by simp
    show ?thesis
    proof (cases k)
      case 0
      with "1.prems" pos show ?thesis by simp
    next
      case (Suc j)
      with "1.prems" have "n div 2 < 2 ^ j" by simp
      with "1.IH" False have "bit_length (n div 2) \<le> j" by simp
      with False Suc show ?thesis by (simp add: bit_length.simps)
    qed
  qed
qed

lemma bit_length_ge: "2 ^ k \<le> m \<Longrightarrow> k < bit_length m"
proof (induction m arbitrary: k rule: bit_length.induct)
  case (1 n)
  have pos: "0 < n" using "1.prems" by (smt (verit) zero_less_power)
  show ?case
  proof (cases k)
    case 0
    with pos show ?thesis by (simp add: bit_length.simps)
  next
    case (Suc j)
    with "1.prems" have "2 ^ j \<le> n div 2" by simp
    with "1.IH" pos have "j < bit_length (n div 2)" by simp
    with pos Suc show ?thesis by (simp add: bit_length.simps)
  qed
qed

lemma two_power_bit_length: "0 < m \<Longrightarrow> 2 ^ (bit_length m - 1) \<le> m"
proof (induction m rule: bit_length.induct)
  case (1 n)
  show ?case
  proof (cases "n div 2 = 0")
    case True
    with "1.prems" have "bit_length n = 1"
      by (simp add: bit_length.simps [of n] bit_length.simps [of 0])
    with "1.prems" show ?thesis by simp
  next
    case False
    with "1.prems" have h: "0 < n div 2" by (simp add: pos_imp_zdiv_pos_iff)
    with "1.IH" "1.prems" have ih: "2 ^ (bit_length (n div 2) - 1) \<le> n div 2" by simp
    from h have "0 < bit_length (n div 2)" by (simp add: bit_length.simps [of "n div 2"])
    then have "bit_length n - 1 = Suc (bit_length (n div 2) - 1)"
      using "1.prems" by (simp add: bit_length.simps [of n])
    with ih show ?thesis by simp
  qed
qed

lemma round_nearest_even_small: "m < 2 ^ 53 \<Longrightarrow> round_nearest_even m = m"
  using bit_length_le [of m 53] by (simp add: round_nearest_even_def)

lemma round_div_even_ge: "0 < den \<Longrightarrow> num div den \<le> round_div_even num den"
  by (simp add: round_div_even_def Let_def)

lemma round_nearest_even_large:
  assumes "2 ^ 53 \<le> m"
  shows "2 ^ 53 \<le> round_nearest_even m"
proof (cases "bit_length m \<le> 53")
  case True
  with assms show ?thesis by (simp add: round_nearest_even_def)
next
  case False
  define b where "b = bit_length m"
  define q :: int where "q = 2 ^ (b - 53)"
  have b: "53 < b" using False by (simp add: b_def)
  have pos: "0 < m" using assms by (smt (verit) zero_less_power)
  have q: "0 < q" by (simp add: q_def)
  have "2 ^ (b - 1) \<le> m" using two_power_bit_length [OF pos] by (simp add: b_def)
  moreover have "(2::int) ^ (b - 1) = 2 ^ 52 * q"
  proof -
    have e: "b - 1 = 52 + (b - 53)" using b by simp
    show ?thesis unfolding e q_def by (rule power_add)
  qed
  ultimately have "2 ^ 52 * q \<le> m" by simp
  then have "(2 ^ 52 * q) div q \<le> m div q" using q by (intro zdiv_mono1) auto
  then have "2 ^ 52 \<le> m div q" using q by simp
  then have r: "2 ^ 52 \<le> round_div_even m q" using round_div_even_ge [OF q, of m] by linarith
  have "(2::int) ^ 1 \<le> 2 ^ (b - 53)" using b by (intro power_increasing) auto
  then have q2: "2 \<le> q" by (simp add: q_def)
  have "2 ^ 52 * 2 \<le> round_div_even m q * q"
    by (rule mult_mono) (use r q2 in auto)
  then show ?thesis using False by (simp add: round_nearest_even_def Let_def b_def q_def)
qed

lemma shortest_decimal_from_small:
  assumes "0 \<le> x" "x < 2 ^ 53"
  shows "shortest_decimal_from x j = x"
proof (induction j)
  case 0
  show ?case by simp
next
  case (Suc j)
  define p :: int where "p = 10 ^ Suc j"
  define lo where "lo = (x div p) * p"
  have p: "0 < p" by (simp add: p_def)
  have lo_eq: "lo = x - x mod p" by (simp add: lo_def minus_mod_eq_div_mult)
  have m: "0 \<le> x mod p" "x mod p < p" using p by simp_all
  have lo_le: "lo \<le> x" and "x < lo + p" using lo_eq m by linarith+
  have lo: "round_nearest_even lo = lo"
    using lo_le assms(2) by (intro round_nearest_even_small) simp
  have hi: "round_nearest_even (lo + p) \<noteq> x"
  proof (cases "lo + p < 2 ^ 53")
    case True
    then have "round_nearest_even (lo + p) = lo + p" by (rule round_nearest_even_small)
    with \<open>x < lo + p\<close> show ?thesis by simp
  next
    case False
    then have "2 ^ 53 \<le> round_nearest_even (lo + p)"
      by (intro round_nearest_even_large) simp
    with assms(2) show ?thesis by simp
  qed
  show ?case
    using lo hi Suc.IH
    by (simp add: Let_def flip: p_def lo_def del: power_Suc)
qed

lemma positive_to_string_small:
  assumes "0 \<le> x" "x < 2 ^ 53"
  shows "positive_to_string x = dec_string x"
proof -
  have "shortest_decimal x = x"
    by (simp add: shortest_decimal_def shortest_decimal_from_small [OF assms])
  moreover have "x < 10 ^ 21" using assms(2) by simp
  ultimately show ?thesis by (simp add: positive_to_string_def)
qed

lemma dec_string_0: "dec_string 0 = ''0''"
  by (simp add: dec_string.simps [of 0] digit_char_def)

lemma number_to_string_small:
  assumes "0 \<le> i" "i < 2 ^ 53"
  shows "number_to_string (Fin i) = dec_string i"
  using assms positive_to_string_small [of i]
  by (auto simp: number_to_string_def dec_string_0)

lemma times_10000_small:
  assumes "0 \<le> n" "n * 10000 < 2 ^ 53"
  shows "times_10000 (Fin n) = Fin (n * 10000)"
proof -
  have "round_nearest_even (n * 10000) = n * 10000"
    using assms(2) by (rule round_nearest_even_small)
  moreover have "\<bar>n * 10000\<bar> = n * 10000" using assms(1) by simp
  moreover have "\<not> (2::int) ^ 1024 \<le> n * 10000"
  proof -
    have "(2::int) ^ 53 \<le> 2 ^ 1024" by (intro power_increasing) auto
    with assms(2) show ?thesis by linarith
  qed
  ultimately show ?thesis using assms(1)
    by (simp add: times_10000_def to_double_def Let_def del: power_numeral)
qed

text \<open>\<open>dec_string\<close> writes the decimal digits: reading them back gives the number.\<close>

lemma digits_value_snoc: "digits_value (ds @ [c]) = digits_value ds * 10 + digit_value c"
  by (simp add: digits_value_def)

lemma digit_value_digit_char: "0 \<le> d \<Longrightarrow> d < 10 \<Longrightarrow> digit_value (digit_char d) = d"
proof -
  assume "0 \<le> d" "d < 10"
  then have "d \<in> {0, 1, 2, 3, 4, 5, 6, 7, 8, 9}" by (simp add: insert_iff) presburger
  then show ?thesis by (auto simp: digit_value_def digit_char_def)
qed

lemma digits_value_dec_string: "0 \<le> n \<Longrightarrow> digits_value (dec_string n) = n"
proof (induction n rule: dec_string.induct)
  case (1 n)
  show ?case
  proof (cases "n < 10")
    case True
    with "1.prems" show ?thesis
      by (simp add: dec_string.simps [of n] digits_value_def digit_value_digit_char)
  next
    case False
    then have "digits_value (dec_string (n div 10)) = n div 10"
      using "1.IH" "1.prems" by simp
    with False show ?thesis
      by (simp add: dec_string.simps [of n] digits_value_snoc digit_value_digit_char)
  qed
qed

subsection \<open>The amount of a requirement\<close>

text \<open>
  Claim C2, amended. For every recipient, every configured network and every whole number
  of cents from 1 on whose product with 10000 is below \<open>2 ^ 53\<close> (up to 900719925474
  cents), \<^verbatim>\<open>buildPaymentRequirements\<close> returns one requirement whose \<open>amount\<close> is exactly
  the decimal integer string of cents times 10000. The witness is the 300 cents of the
  spec, \<open>''3000000''\<close> on each of the four networks.
\<close>

theorem amount_exact_below_2_53:
  assumes "NETWORK_CONFIG network_name = Own networkConfig"
    and "1 \<le> amountCents" and "amountCents * 10000 < 2 ^ 53"
  shows "\<exists>r. buildPaymentRequirements recipient network_name (Fin amountCents) resourceUrl = Inr [r]
           \<and> amount r = dec_string (amountCents * 10000)
           \<and> digits_value (amount r) = amountCents * 10000"
proof -
  have "times_10000 (Fin amountCents) = Fin (amountCents * 10000)"
    using assms(2,3) by (intro times_10000_small) auto
  moreover have "number_to_string (Fin (amountCents * 10000)) = dec_string (amountCents * 10000)"
    using assms(2,3) by (intro number_to_string_small) auto
  moreover have "digits_value (dec_string (amountCents * 10000)) = amountCents * 10000"
    using assms(2) by (intro digits_value_dec_string) auto
  ultimately show ?thesis
    using assms(1) by (simp add: buildPaymentRequirements_def)
qed

lemma dec_string_3000000: "dec_string 3000000 = ''3000000''"
  by code_simp

theorem amount_exact_below_2_53_witness:
  "(\<exists>r. buildPaymentRequirements ''0x1111111111111111111111111111111111111111'' ''base''
          (Fin 300) ''https://example.org/api/donate'' = Inr [r] \<and> amount r = ''3000000'')
   \<and> (\<exists>r. buildPaymentRequirements ''0x1111111111111111111111111111111111111111'' ''base-sepolia''
          (Fin 300) ''https://example.org/api/donate'' = Inr [r] \<and> amount r = ''3000000'')
   \<and> (\<exists>r. buildPaymentRequirements ''0x1111111111111111111111111111111111111111'' ''sepolia''
          (Fin 300) ''https://example.org/api/donate'' = Inr [r] \<and> amount r = ''3000000'')
   \<and> (\<exists>r. buildPaymentRequirements ''0x1111111111111111111111111111111111111111'' ''mainnet''
          (Fin 300) ''https://example.org/api/donate'' = Inr [r] \<and> amount r = ''3000000'')"
proof -
  have a: "(1::int) \<le> 300" and b: "(300::int) * 10000 < 2 ^ 53" by simp_all
  have c: "\<exists>cfg. NETWORK_CONFIG n = Own cfg"
    if "n \<in> {''base'', ''base-sepolia'', ''sepolia'', ''mainnet''}" for n
    using that by (auto simp: NETWORK_CONFIG_def)
  have "\<exists>r. buildPaymentRequirements rc n (Fin 300) u = Inr [r] \<and> amount r = ''3000000''"
    if "n \<in> {''base'', ''base-sepolia'', ''sepolia'', ''mainnet''}" for n rc u
  proof -
    from c [OF that] obtain cfg where "NETWORK_CONFIG n = Own cfg" ..
    from amount_exact_below_2_53 [OF this a b, of rc u] show ?thesis
      by (auto simp: dec_string_3000000)
  qed
  then show ?thesis by simp
qed

text \<open>
  The claim as stated, for every amount from 1 on, fails: the product is a double, and
  from \<open>10 ^ 21\<close> on \<^verbatim>\<open>toString\<close> prints it with an exponent. For
  \<^verbatim>\<open>?amount=1000000000000000000\<close> the amount field is \<open>''1e+22''\<close>.
\<close>

theorem amount_not_decimal_counterexample:
  "parseInt ''1000000000000000000'' = Fin 1000000000000000000
   \<and> map amount (projr (buildPaymentRequirements ''0x1111111111111111111111111111111111111111''
        ''base'' (Fin 1000000000000000000) ''https://example.org/api/donate'')) = [''1e+22'']
   \<and> dec_string (1000000000000000000 * 10000) = ''10000000000000000000000''"
  by code_simp

subsection \<open>Facts about the handlers\<close>

lemma fetch_url_facilitator_call:
  "fetch_url (facilitator_call pf path request_body) = facilitator_url pf @ path"
  by (simp add: facilitator_call_def facilitator_url_def Let_def)

lemma no_API_KEY: "map_of (getServerEnv env) ''FACILITATOR_API_KEY'' = None"
  by (simp add: getServerEnv_def)

lemma fetch_headers_facilitator_call:
  "fetch_headers (facilitator_call pf path request_body) = [(''Content-Type'', ''application/json'')]"
  by (simp add: facilitator_call_def Let_def no_API_KEY present_def)

lemma property_nullish: "nullish v \<Longrightarrow> property v name = JUndefined"
  by (auto simp: nullish_def property_def)

lemma POST_with_header:
  assumes "NETWORK_CONFIG network_name \<noteq> Missing"
    and "paymentHeader_of req = Some paymentHeader" and "paymentHeader \<noteq> []"
  shows "POST pf recipient network_name req =
         catch_block (redeem pf recipient network_name (amountCents_of req) (url req) paymentHeader)"
  using assms by (simp add: POST_def present_def)

lemma snd_catch_block: "snd (catch_block outcome) = snd outcome"
  by (auto simp: catch_block_def split: prod.splits sum.splits)

lemma fst_catch_block_Inr: "fst outcome = Inr r \<Longrightarrow> fst (catch_block outcome) = Inr r"
  by (auto simp: catch_block_def split: prod.splits sum.splits)

lemma snd_settle:
  "snd (settle pf recipient network_name b) = [facilitator_call pf ''/settle'' b]"
  by (simp add: settle_def Let_def split: fetch_result.splits option.splits)

lemma redeem_calls:
  assumes "c \<in> set (snd (redeem pf recipient network_name amountCents request_url paymentHeader))"
    and "fetch_url c = facilitator_url pf @ ''/settle''"
  shows "\<exists>vc verifyResponse verifyResult.
           snd (redeem pf recipient network_name amountCents request_url paymentHeader) = [vc, c]
           \<and> fetch_url vc = facilitator_url pf @ ''/verify''
           \<and> fetch pf vc = Resolves verifyResponse \<and> ok verifyResponse
           \<and> JSON_parse pf (body verifyResponse) = Some verifyResult
           \<and> truthy (property verifyResult ''isValid'')"
  using assms
  by (auto simp: redeem_def Let_def snd_settle fetch_url_facilitator_call
           split: option.splits sum.splits fetch_result.splits if_splits)

lemma property_not_nullish: "property v name = JBool b \<Longrightarrow> \<not> nullish v"
  using property_nullish [of v name] by auto

lemma redeem_decoded:
  assumes "atob pf paymentHeader = Some decoded"
    and "JSON_parse pf decoded = Some paymentPayload"
    and "buildPaymentRequirements recipient network_name amountCents request_url
           = Inr paymentRequirements"
  shows "redeem pf recipient network_name amountCents request_url paymentHeader =
     (let verifyCall = facilitator_call pf ''/verify''
                         (facilitator_request_body paymentPayload paymentRequirements)
      in case fetch pf verifyCall of
           Rejects \<Rightarrow> (Inl FetchRejected, [verifyCall])
         | Resolves verifyResponse \<Rightarrow>
             (if \<not> ok verifyResponse then
                (Inr (Response_json [(''error'', JStr ''Payment verification failed''),
                                     (''details'', JStr (body verifyResponse))] 400),
                 [verifyCall])
              else
                (case JSON_parse pf (body verifyResponse) of
                   None \<Rightarrow> (Inl SyntaxError, [verifyCall])
                 | Some verifyResult \<Rightarrow>
                     (if nullish verifyResult then (Inl TypeError, [verifyCall])
                      else if \<not> truthy (property verifyResult ''isValid'') then
                        (Inr (Response_json
                                [(''error'', JStr ''Invalid payment''),
                                 (''reason'', property verifyResult ''invalidReason'')] 400),
                         [verifyCall])
                      else
                        (fst (settle pf recipient network_name
                                (facilitator_request_body paymentPayload paymentRequirements)),
                         verifyCall # snd (settle pf recipient network_name
                                (facilitator_request_body paymentPayload paymentRequirements)))))))"
  using assms by (simp add: redeem_def Let_def split: fetch_result.splits option.splits)

lemma thank_you_bytes:
  "thank_you = ''Thank you for your donation! ''
               @ [CHR 0xC3, CHR 0xA2, CHR 0xCB, CHR 0x9C, CHR 0xE2, CHR 0x80, CHR 0xA2]"
  by code_simp

lemma JSON_stringify_object: "JSON_stringify (JObj kvs) = Some (stringify_object kvs)"
  by (simp add: stringify_object_def)

lemma to_lower_idem: "to_lower (to_lower c) = to_lower c"
  by (auto simp: to_lower_def split: option.splits if_splits)

lemma map_to_lower_idem: "map to_lower (map to_lower s) = map to_lower s"
  by (induction s) (simp_all add: to_lower_idem)

lemma headers_get_lower:
  "headers_get (map (\<lambda>h. (map to_lower (fst h), snd h)) hs) (map to_lower name)
   = headers_get hs name"
proof -
  have "filter (\<lambda>h. map to_lower (fst h) = map to_lower (map to_lower name))
          (map (\<lambda>h. (map to_lower (fst h), snd h)) hs)
        = map (\<lambda>h. (map to_lower (fst h), snd h))
            (filter (\<lambda>h. map to_lower (fst h) = map to_lower name) hs)"
    by (induction hs) (simp_all add: map_to_lower_idem del: map_map)
  then show ?thesis
    by (cases "filter (\<lambda>h. map to_lower (fst h) = map to_lower name) hs")
       (simp_all add: headers_get_def comp_def)
qed

lemma headers_get_cong:
  "map to_lower name = map to_lower name' \<Longrightarrow> headers_get hs name = headers_get hs name'"
  by (simp add: headers_get_def)

lemma signature_names: "map to_lower ''PAYMENT-SIGNATURE'' = map to_lower ''payment-signature''"
  by (simp add: to_lower_def)

lemma legacy_names: "map to_lower ''X-PAYMENT'' = map to_lower ''x-payment''"
  by (simp add: to_lower_def)

lemma paymentHeader_of_eq:
  "paymentHeader_of req =
     or_else (headers_get (request_headers req) ''PAYMENT-SIGNATURE'')
             (headers_get (request_headers req) ''X-PAYMENT'')"
  using headers_get_cong [OF signature_names, of "request_headers req"]
        headers_get_cong [OF legacy_names, of "request_headers req"]
  by (simp add: paymentHeader_of_def or_else_def)

lemma buildPaymentRequirements_configured:
  "NETWORK_CONFIG network_name = Own networkConfig \<Longrightarrow>
   \<exists>r. buildPaymentRequirements recipient network_name amountCents resourceUrl = Inr [r]"
  by (simp add: buildPaymentRequirements_def)

lemma POST_without_header_is_GET:
  assumes "valid_recipient recipient" and "\<not> less_than_1 (amountCents_of req)"
    and "\<not> present (paymentHeader_of req)"
  shows "POST pf recipient network_name req = (GET recipient network_name req, [])"
  using assms
  by (auto simp: POST_def GET_def Let_def split: sum.splits)

lemma GET_invalid_recipient:
  "\<not> valid_recipient recipient \<Longrightarrow>
   GET recipient network_name req
     = Inr (Response_json [(''error'', JStr ''Invalid recipient address'')] 400)"
  by (simp add: GET_def)

lemma GET_amount_below_1:
  "valid_recipient recipient \<Longrightarrow> NETWORK_CONFIG network_name \<noteq> Missing \<Longrightarrow>
   amountCents_of req = Fin a \<Longrightarrow> a < 1 \<Longrightarrow>
   GET recipient network_name req = Inr (Response_json [(''error'', JStr ''Invalid amount'')] 400)"
  by (simp add: GET_def less_than_1_def)

subsection \<open>Facts about the examples\<close>

lemma base_configured:
  "NETWORK_CONFIG ''base'' =
     Own \<lparr>chainId = 8453, chainIdCAIP = ''eip155:8453'',
          config_asset = ''0x833589fCD6eDb6E08f4c7C32D4f71b54bdA02913'',
          config_name = ''Base'',
          eip712 = \<lparr>eip712_name = ''USD Coin'', eip712_version = ''2''\<rparr>\<rparr>"
  by (simp add: NETWORK_CONFIG_def)

lemma paying_request_requirements:
  "buildPaymentRequirements some_recipient ''base'' (amountCents_of paying_request)
     (url paying_request) = Inr paying_requirements"
  by code_simp

lemma paying_request_header: "paymentHeader_of paying_request = Some ''eyJ4IjoxfQ==''"
  by code_simp

lemma paying_header_not_empty: "''eyJ4IjoxfQ=='' \<noteq> []"
  by simp

lemma ok_replies: "ok \<lparr>status = 200, headers = [], body = text\<rparr>"
  by (simp add: ok_def)

subsection \<open>Settle follows a valid verify\<close>

text \<open>
  Claim C1, amended. Whenever the POST handler makes a settle call, the calls of that
  request are exactly two, the verify call and then the settle call; the verify call resolved
  with a 2xx response whose body parsed as JSON, and the \<^verbatim>\<open>isValid\<close> of that body is true
  as JavaScript tests it (\<open>truthy\<close>: \<^verbatim>\<open>true\<close>, and just as well a non-zero number, a
  non-empty string, an object or an array); where it is a boolean, it is \<^verbatim>\<open>true\<close>. So
  there is at most one settle call per request, and none without such a verify outcome
  before it.
\<close>

theorem settle_only_after_valid_verify:
  assumes "c \<in> set (snd (POST pf recipient network_name req))"
    and "fetch_url c = facilitator_url pf @ ''/settle''"
  shows "\<exists>vc verifyResponse verifyResult.
           snd (POST pf recipient network_name req) = [vc, c]
           \<and> fetch_url vc = facilitator_url pf @ ''/verify''
           \<and> fetch_url vc \<noteq> facilitator_url pf @ ''/settle''
           \<and> fetch pf vc = Resolves verifyResponse \<and> ok verifyResponse
           \<and> JSON_parse pf (body verifyResponse) = Some verifyResult
           \<and> truthy (property verifyResult ''isValid'')
           \<and> (\<forall>b. property verifyResult ''isValid'' = JBool b \<longrightarrow> b)"
proof -
  have "snd (POST pf recipient network_name req) = [] \<or>
        snd (POST pf recipient network_name req) =
          snd (redeem pf recipient network_name (amountCents_of req) (url req)
                 (the (paymentHeader_of req)))"
    by (auto simp: POST_def Let_def snd_catch_block split: sum.splits)
  with assms(1) have eq: "snd (POST pf recipient network_name req) =
          snd (redeem pf recipient network_name (amountCents_of req) (url req)
                 (the (paymentHeader_of req)))"
    by auto
  from redeem_calls [OF assms(1) [unfolded eq] assms(2)] obtain vc verifyResponse verifyResult
    where r: "snd (redeem pf recipient network_name (amountCents_of req) (url req)
                     (the (paymentHeader_of req))) = [vc, c]"
        "fetch_url vc = facilitator_url pf @ ''/verify''"
        "fetch pf vc = Resolves verifyResponse" "ok verifyResponse"
        "JSON_parse pf (body verifyResponse) = Some verifyResult"
        "truthy (property verifyResult ''isValid'')"
    by blast
  from r(6) have "\<forall>b. property verifyResult ''isValid'' = JBool b \<longrightarrow> b"
    by auto
  with r show ?thesis
    unfolding eq by auto
qed

text \<open>With a facilitator that accepts and settles, the trace is verify, settle.\<close>

theorem settle_only_after_valid_verify_witness:
  "last (snd (POST settling_facilitator some_recipient ''base'' paying_request))
     \<in> set (snd (POST settling_facilitator some_recipient ''base'' paying_request))
   \<and> fetch_url (last (snd (POST settling_facilitator some_recipient ''base'' paying_request)))
       = ''https://x402.org/facilitator/settle''
   \<and> (\<exists>vc verifyResponse verifyResult.
         snd (POST settling_facilitator some_recipient ''base'' paying_request)
           = [vc, last (snd (POST settling_facilitator some_recipient ''base'' paying_request))]
         \<and> fetch_url vc = ''https://x402.org/facilitator/verify''
         \<and> fetch settling_facilitator vc = Resolves verifyResponse \<and> ok verifyResponse
         \<and> JSON_parse settling_facilitator (body verifyResponse) = Some verifyResult
         \<and> property verifyResult ''isValid'' = JBool True)"
proof -
  let ?calls = "snd (POST settling_facilitator some_recipient ''base'' paying_request)"
  have u: "facilitator_url settling_facilitator = ''https://x402.org/facilitator''"
    by code_simp
  have a: "last ?calls \<in> set ?calls"
    by code_simp
  have b: "fetch_url (last ?calls) = facilitator_url settling_facilitator @ ''/settle''"
    by code_simp
  have b': "fetch_url (last ?calls) = ''https://x402.org/facilitator/settle''"
    using b by (simp add: u)
  from settle_only_after_valid_verify [OF a b] obtain vc verifyResponse verifyResult
    where c: "?calls = [vc, last ?calls]"
      and d: "fetch_url vc = facilitator_url settling_facilitator @ ''/verify''"
      and e: "fetch settling_facilitator vc = Resolves verifyResponse" "ok verifyResponse"
        "JSON_parse settling_facilitator (body verifyResponse) = Some verifyResult"
        "truthy (property verifyResult ''isValid'')"
    by blast
  have d': "fetch_url vc = ''https://x402.org/facilitator/verify''"
    using d by (simp add: u)
  have \<open>fetch settling_facilitator (hd ?calls)
          = Resolves \<lparr>status = 200, headers = [], body = ''{"isValid":true}''\<rparr>\<close>
    by code_simp
  with c e(1) have v: \<open>verifyResponse = \<lparr>status = 200, headers = [], body = ''{"isValid":true}''\<rparr>\<close>
    by (metis fetch_result.inject list.sel(1))
  have \<open>JSON_parse settling_facilitator
           (body \<lparr>status = 200, headers = [], body = ''{"isValid":true}''\<rparr>)
          = Some (JObj [(''isValid'', JBool True)])\<close>
    by code_simp
  with e(3) v have "verifyResult = JObj [(''isValid'', JBool True)]"
    by simp
  moreover have "property (JObj [(''isValid'', JBool True)]) ''isValid'' = JBool True"
    by code_simp
  ultimately have f: "property verifyResult ''isValid'' = JBool True"
    by simp
  show ?thesis using a b' c d' e(1,2,3) f by blast
qed

text \<open>
  The claim as stated asks for \<^verbatim>\<open>isValid\<close> equal to \<^verbatim>\<open>true\<close>. The handler tests
  \<^verbatim>\<open>!verifyResult.isValid\<close>: a verify answer \<^verbatim>\<open>{"isValid":1}\<close> is followed by a settle call.
\<close>

theorem settle_after_truthy_isValid_counterexample:
  \<open>map fetch_url (snd (POST lenient_facilitator some_recipient ''base'' paying_request))
     = [''https://x402.org/facilitator/verify'', ''https://x402.org/facilitator/settle'']
   \<and> fetch lenient_facilitator
         (hd (snd (POST lenient_facilitator some_recipient ''base'' paying_request)))
       = Resolves \<lparr>status = 200, headers = [], body = ''{"isValid":1}''\<rparr>
   \<and> JSON_parse lenient_facilitator ''{"isValid":1}'' = Some (JObj [(''isValid'', JNum (Fin 1))])
   \<and> property (JObj [(''isValid'', JNum (Fin 1))]) ''isValid'' \<noteq> JBool True\<close>
  by code_simp

subsection \<open>Declined payments and failed settlements\<close>

text \<open>
  Claim C3. Take a POST on a configured network whose payment header is there and
  decodes (so that the verify call is made), and let the verify call resolve with a 2xx
  response whose body parses. If that body has \<^verbatim>\<open>isValid\<close> false and
  \<^verbatim>\<open>invalidReason\<close> \<open>r\<close>, the response is HTTP 400 with body
  \<^verbatim>\<open>{error: "Invalid payment", reason: r}\<close>. If it has \<^verbatim>\<open>isValid\<close> true and the settle call
  resolves with a 2xx response whose body has \<^verbatim>\<open>success\<close> false and \<^verbatim>\<open>errorReason\<close>
  \<open>s\<close>, the response is HTTP 500 with body \<^verbatim>\<open>{error: "Settlement failed", reason: s}\<close>.
\<close>

theorem invalid_payment_and_settlement_failure:
  assumes "NETWORK_CONFIG network_name = Own networkConfig"
    and "buildPaymentRequirements recipient network_name (amountCents_of req) (url req)
           = Inr paymentRequirements"
    and "paymentHeader_of req = Some paymentHeader" and "paymentHeader \<noteq> []"
    and "atob pf paymentHeader = Some decoded"
    and "JSON_parse pf decoded = Some paymentPayload"
    and "fetch pf (facilitator_call pf ''/verify''
                     (facilitator_request_body paymentPayload paymentRequirements))
           = Resolves verifyResponse"
    and "ok verifyResponse"
    and "JSON_parse pf (body verifyResponse) = Some verifyResult"
  shows "(property verifyResult ''isValid'' = JBool False
          \<and> property verifyResult ''invalidReason'' = JStr r
          \<longrightarrow> fst (POST pf recipient network_name req)
                = Inr (Response_json [(''error'', JStr ''Invalid payment''),
                                      (''reason'', JStr r)] 400))
       \<and> (property verifyResult ''isValid'' = JBool True
          \<and> fetch pf (facilitator_call pf ''/settle''
                         (facilitator_request_body paymentPayload paymentRequirements))
              = Resolves settleResponse
          \<and> ok settleResponse
          \<and> JSON_parse pf (body settleResponse) = Some settleResult
          \<and> property settleResult ''success'' = JBool False
          \<and> property settleResult ''errorReason'' = JStr s
          \<longrightarrow> fst (POST pf recipient network_name req)
                = Inr (Response_json [(''error'', JStr ''Settlement failed''),
                                      (''reason'', JStr s)] 500))"
proof -
  have post: "POST pf recipient network_name req =
      catch_block (redeem pf recipient network_name (amountCents_of req) (url req) paymentHeader)"
    using assms(1,3,4) by (intro POST_with_header) auto
  note red = redeem_decoded [OF assms(5,6,2)]
  show ?thesis
  proof (intro conjI impI)
    assume "property verifyResult ''isValid'' = JBool False
            \<and> property verifyResult ''invalidReason'' = JStr r"
    then show "fst (POST pf recipient network_name req)
                = Inr (Response_json [(''error'', JStr ''Invalid payment''),
                                      (''reason'', JStr r)] 400)"
      using assms(7,8,9) property_not_nullish [of verifyResult "''isValid''" False]
      by (simp add: post red fst_catch_block_Inr)
  next
    assume h: "property verifyResult ''isValid'' = JBool True
          \<and> fetch pf (facilitator_call pf ''/settle''
                         (facilitator_request_body paymentPayload paymentRequirements))
              = Resolves settleResponse
          \<and> ok settleResponse
          \<and> JSON_parse pf (body settleResponse) = Some settleResult
          \<and> property settleResult ''success'' = JBool False
          \<and> property settleResult ''errorReason'' = JStr s"
    then have "fst (settle pf recipient network_name
                     (facilitator_request_body paymentPayload paymentRequirements))
               = Inr (Response_json [(''error'', JStr ''Settlement failed''),
                                      (''reason'', JStr s)] 500)"
      using property_not_nullish [of settleResult "''success''" False]
      by (simp add: settle_def Let_def)
    with h show "fst (POST pf recipient network_name req)
                = Inr (Response_json [(''error'', JStr ''Settlement failed''),
                                      (''reason'', JStr s)] 500)"
      using assms(7,8,9) property_not_nullish [of verifyResult "''isValid''" True]
      by (simp add: post red fst_catch_block_Inr)
  qed
qed

text \<open>The two examples of the spec: \<^verbatim>\<open>expired\<close> and \<^verbatim>\<open>insufficient_funds\<close>.\<close>

theorem invalid_payment_and_settlement_failure_witness:
  \<open>fst (POST declining_facilitator some_recipient ''base'' paying_request)
     = Inr \<lparr>status = 400, headers = [(''Content-Type'', ''application/json'')],
            body = ''{"error":"Invalid payment","reason":"expired"}''\<rparr>
   \<and> fst (POST failing_facilitator some_recipient ''base'' paying_request)
     = Inr \<lparr>status = 500, headers = [(''Content-Type'', ''application/json'')],
            body = ''{"error":"Settlement failed","reason":"insufficient_funds"}''\<rparr>\<close>
proof
  have b: \<open>Response_json [(''error'', JStr ''Invalid payment''), (''reason'', JStr ''expired'')] 400
           = \<lparr>status = 400, headers = [(''Content-Type'', ''application/json'')],
              body = ''{"error":"Invalid payment","reason":"expired"}''\<rparr>\<close>
    by code_simp
  have a: \<open>atob declining_facilitator ''eyJ4IjoxfQ=='' = Some ''{"x":1}''\<close>
    by code_simp
  have j: \<open>JSON_parse declining_facilitator ''{"x":1}'' = Some paying_payload\<close>
    by code_simp
  have v: \<open>fetch declining_facilitator
             (facilitator_call declining_facilitator ''/verify''
                (facilitator_request_body paying_payload paying_requirements))
           = Resolves \<lparr>status = 200, headers = [],
                        body = ''{"isValid":false,"invalidReason":"expired"}''\<rparr>\<close>
    by code_simp
  have p: \<open>JSON_parse declining_facilitator
             (body \<lparr>status = 200, headers = [],
                    body = ''{"isValid":false,"invalidReason":"expired"}''\<rparr>)
           = Some (JObj [(''isValid'', JBool False), (''invalidReason'', JStr ''expired'')])\<close>
    by code_simp
  have r: "property (JObj [(''isValid'', JBool False), (''invalidReason'', JStr ''expired'')])
             ''isValid'' = JBool False
           \<and> property (JObj [(''isValid'', JBool False), (''invalidReason'', JStr ''expired'')])
             ''invalidReason'' = JStr ''expired''"
    by code_simp
  from invalid_payment_and_settlement_failure
         [OF base_configured paying_request_requirements paying_request_header paying_header_not_empty
             a j v ok_replies p, THEN conjunct1, rule_format, OF r]
  show \<open>fst (POST declining_facilitator some_recipient ''base'' paying_request)
     = Inr \<lparr>status = 400, headers = [(''Content-Type'', ''application/json'')],
            body = ''{"error":"Invalid payment","reason":"expired"}''\<rparr>\<close>
    by (simp only: b)
next
  have b: \<open>Response_json [(''error'', JStr ''Settlement failed''),
                          (''reason'', JStr ''insufficient_funds'')] 500
           = \<lparr>status = 500, headers = [(''Content-Type'', ''application/json'')],
              body = ''{"error":"Settlement failed","reason":"insufficient_funds"}''\<rparr>\<close>
    by code_simp
  have a: \<open>atob failing_facilitator ''eyJ4IjoxfQ=='' = Some ''{"x":1}''\<close>
    by code_simp
  have j: \<open>JSON_parse failing_facilitator ''{"x":1}'' = Some paying_payload\<close>
    by code_simp
  have v: \<open>fetch failing_facilitator
             (facilitator_call failing_facilitator ''/verify''
                (facilitator_request_body paying_payload paying_requirements))
           = Resolves \<lparr>status = 200, headers = [], body = ''{"isValid":true}''\<rparr>\<close>
    by code_simp
  have p: \<open>JSON_parse failing_facilitator
             (body \<lparr>status = 200, headers = [], body = ''{"isValid":true}''\<rparr>)
           = Some (JObj [(''isValid'', JBool True)])\<close>
    by code_simp
  have r: \<open>property (JObj [(''isValid'', JBool True)]) ''isValid'' = JBool True
         \<and> fetch failing_facilitator
               (facilitator_call failing_facilitator ''/settle''
                  (facilitator_request_body paying_payload paying_requirements))
             = Resolves \<lparr>status = 200, headers = [],
                          body = ''{"success":false,"errorReason":"insufficient_funds"}''\<rparr>
         \<and> ok \<lparr>status = 200, headers = [],
                body = ''{"success":false,"errorReason":"insufficient_funds"}''\<rparr>
         \<and> JSON_parse failing_facilitator
               (body \<lparr>status = 200, headers = [],
                      body = ''{"success":false,"errorReason":"insufficient_funds"}''\<rparr>)
             = Some (JObj [(''success'', JBool False),
                           (''errorReason'', JStr ''insufficient_funds'')])
         \<and> property (JObj [(''success'', JBool False),
                            (''errorReason'', JStr ''insufficient_funds'')]) ''success''
             = JBool False
         \<and> property (JObj [(''success'', JBool False),
                            (''errorReason'', JStr ''insufficient_funds'')]) ''errorReason''
             = JStr ''insufficient_funds''\<close>
    by code_simp
  from invalid_payment_and_settlement_failure
         [OF base_configured paying_request_requirements paying_request_header paying_header_not_empty
             a j v ok_replies p, THEN conjunct2, rule_format, OF r]
  show \<open>fst (POST failing_facilitator some_recipient ''base'' paying_request)
     = Inr \<lparr>status = 500, headers = [(''Content-Type'', ''application/json'')],
            body = ''{"error":"Settlement failed","reason":"insufficient_funds"}''\<rparr>\<close>
    by (simp only: b)
qed

subsection \<open>Failures of the verify call\<close>

text \<open>
  Claim C4, amended. Take a POST on a configured network whose payment header is there
  and decodes. If the verify call resolves with a response that is not 2xx, the handler
  answers HTTP 400 with body \<^verbatim>\<open>{error: "Payment verification failed", details}\<close>, the
  details being the text of that response. If the call itself fails (the promise of
  \<^verbatim>\<open>fetch\<close> rejects: no connection, a timeout), the \<^verbatim>\<open>catch\<close> block answers HTTP 500
  with body \<^verbatim>\<open>{error: "Payment processing failed"}\<close>. In both cases no settle call is made.
\<close>

theorem verify_transport_failures:
  assumes "NETWORK_CONFIG network_name = Own networkConfig"
    and "buildPaymentRequirements recipient network_name (amountCents_of req) (url req)
           = Inr paymentRequirements"
    and "paymentHeader_of req = Some paymentHeader" and "paymentHeader \<noteq> []"
    and "atob pf paymentHeader = Some decoded"
    and "JSON_parse pf decoded = Some paymentPayload"
  shows "(fetch pf (facilitator_call pf ''/verify''
                      (facilitator_request_body paymentPayload paymentRequirements))
            = Resolves verifyResponse
          \<and> \<not> ok verifyResponse
          \<longrightarrow> POST pf recipient network_name req
                = (Inr (Response_json [(''error'', JStr ''Payment verification failed''),
                                       (''details'', JStr (body verifyResponse))] 400),
                   [facilitator_call pf ''/verify''
                      (facilitator_request_body paymentPayload paymentRequirements)]))
       \<and> (fetch pf (facilitator_call pf ''/verify''
                      (facilitator_request_body paymentPayload paymentRequirements))
            = Rejects
          \<longrightarrow> POST pf recipient network_name req
                = (Inr (Response_json [(''error'', JStr ''Payment processing failed'')] 500),
                   [facilitator_call pf ''/verify''
                      (facilitator_request_body paymentPayload paymentRequirements)]))"
proof -
  have post: "POST pf recipient network_name req =
      catch_block (redeem pf recipient network_name (amountCents_of req) (url req) paymentHeader)"
    using assms(1,3,4) by (intro POST_with_header) auto
  note red = redeem_decoded [OF assms(5,6,2)]
  show ?thesis
    by (simp add: post red catch_block_def)
qed

text \<open>A facilitator that answers 503, and one that cannot be reached.\<close>

theorem verify_transport_failures_witness:
  \<open>POST overloaded_facilitator some_recipient ''base'' paying_request
     = (Inr \<lparr>status = 400, headers = [(''Content-Type'', ''application/json'')],
             body = ''{"error":"Payment verification failed","details":"Service Unavailable"}''\<rparr>,
        [facilitator_call overloaded_facilitator ''/verify''
           (facilitator_request_body paying_payload paying_requirements)])
   \<and> POST unreachable_facilitator some_recipient ''base'' paying_request
     = (Inr \<lparr>status = 500, headers = [(''Content-Type'', ''application/json'')],
             body = ''{"error":"Payment processing failed"}''\<rparr>,
        [facilitator_call unreachable_facilitator ''/verify''
           (facilitator_request_body paying_payload paying_requirements)])\<close>
proof
  have b: \<open>Response_json
             [(''error'', JStr ''Payment verification failed''),
              (''details'',
               JStr (body \<lparr>status = 503, headers = [], body = ''Service Unavailable''\<rparr>))] 400
           = \<lparr>status = 400, headers = [(''Content-Type'', ''application/json'')],
              body = ''{"error":"Payment verification failed","details":"Service Unavailable"}''\<rparr>\<close>
    by code_simp
  have a: \<open>atob overloaded_facilitator ''eyJ4IjoxfQ=='' = Some ''{"x":1}''\<close>
    by code_simp
  have j: \<open>JSON_parse overloaded_facilitator ''{"x":1}'' = Some paying_payload\<close>
    by code_simp
  have v: "fetch overloaded_facilitator
             (facilitator_call overloaded_facilitator ''/verify''
                (facilitator_request_body paying_payload paying_requirements))
           = Resolves \<lparr>status = 503, headers = [], body = ''Service Unavailable''\<rparr>
           \<and> \<not> ok \<lparr>status = 503, headers = [], body = ''Service Unavailable''\<rparr>"
    by code_simp
  from verify_transport_failures
         [OF base_configured paying_request_requirements paying_request_header paying_header_not_empty a j,
          THEN conjunct1, rule_format, OF v]
  show \<open>POST overloaded_facilitator some_recipient ''base'' paying_request
     = (Inr \<lparr>status = 400, headers = [(''Content-Type'', ''application/json'')],
             body = ''{"error":"Payment verification failed","details":"Service Unavailable"}''\<rparr>,
        [facilitator_call overloaded_facilitator ''/verify''
           (facilitator_request_body paying_payload paying_requirements)])\<close>
    by (simp only: b)
next
  have b: \<open>Response_json [(''error'', JStr ''Payment processing failed'')] 500
           = \<lparr>status = 500, headers = [(''Content-Type'', ''application/json'')],
              body = ''{"error":"Payment processing failed"}''\<rparr>\<close>
    by code_simp
  have a: \<open>atob unreachable_facilitator ''eyJ4IjoxfQ=='' = Some ''{"x":1}''\<close>
    by code_simp
  have j: \<open>JSON_parse unreachable_facilitator ''{"x":1}'' = Some paying_payload\<close>
    by code_simp
  have v: "fetch unreachable_facilitator
             (facilitator_call unreachable_facilitator ''/verify''
                (facilitator_request_body paying_payload paying_requirements))
           = Rejects"
    by code_simp
  from verify_transport_failures
         [OF base_configured paying_request_requirements paying_request_header paying_header_not_empty a j,
          THEN conjunct2, rule_format, OF v]
  show \<open>POST unreachable_facilitator some_recipient ''base'' paying_request
     = (Inr \<lparr>status = 500, headers = [(''Content-Type'', ''application/json'')],
             body = ''{"error":"Payment processing failed"}''\<rparr>,
        [facilitator_call unreachable_facilitator ''/verify''
           (facilitator_request_body paying_payload paying_requirements)])\<close>
    by (simp only: b)
qed

text \<open>
  The claim as stated has HTTP 400 for every failure of the verify call. When the call is
  rejected the status is 500.
\<close>

theorem rejected_verify_is_500_counterexample:
  "map fetch_url (snd (POST unreachable_facilitator some_recipient ''base'' paying_request))
     = [''https://x402.org/facilitator/verify'']
   \<and> fetch unreachable_facilitator
         (hd (snd (POST unreachable_facilitator some_recipient ''base'' paying_request)))
       = Rejects
   \<and> map_sum id status (fst (POST unreachable_facilitator some_recipient ''base'' paying_request))
       = Inr 500"
  by code_simp

subsection \<open>The challenge of the GET handler\<close>

text \<open>
  Claim C5, amended. For a valid recipient, a configured network and an amount parameter
  that parses to an integer from 1 on, the GET handler returns HTTP 402 whose body is the
  JSON \<^verbatim>\<open>{error: "Payment Required"}\<close> and whose header \<^verbatim>\<open>PAYMENT-REQUIRED\<close> is the base64
  encoding of the JSON serialisation of
  \<^verbatim>\<open>{x402Version: 2, accepts: requirements, error: "Payment Required"}\<close>, the requirements
  being those of \<^verbatim>\<open>buildPaymentRequirements\<close>.
\<close>

theorem challenge_response:
  assumes "valid_recipient recipient"
    and "NETWORK_CONFIG network_name = Own networkConfig"
    and "amountCents_of req = Fin a" and "1 \<le> a"
  shows "\<exists>paymentRequirements.
           buildPaymentRequirements recipient network_name (Fin a) (url req)
             = Inr paymentRequirements
           \<and> GET recipient network_name req
             = Inr \<lparr>status = 402,
                    headers =
                      [(''Content-Type'', ''application/json''),
                       (''PAYMENT-REQUIRED'',
                        btoa (the (JSON_stringify
                                (JObj [(''x402Version'', JNum (Fin 2)),
                                       (''accepts'', JArr (map requirement_json paymentRequirements)),
                                       (''error'', JStr ''Payment Required'')]))))],
                    body = the (JSON_stringify (JObj [(''error'', JStr ''Payment Required'')]))\<rparr>"
proof -
  from buildPaymentRequirements_configured [OF assms(2)] obtain r
    where r: "buildPaymentRequirements recipient network_name (Fin a) (url req) = Inr [r]"
    by blast
  have "\<not> less_than_1 (Fin a)" using assms(4) by (simp add: less_than_1_def)
  then have "GET recipient network_name req = Inr (createPaymentRequiredResponse [r])"
    using assms(1,2,3) r by (simp add: GET_def)
  then show ?thesis
    using r
    by (simp add: createPaymentRequiredResponse_def JSON_stringify_object
             del: JSON_stringify.simps)
qed

text \<open>
  The request for 300 cents on \<^verbatim>\<open>base\<close>: the header is the base64 encoding of the JSON
  text below.
\<close>

theorem challenge_response_witness:
  \<open>GET some_recipient ''base'' plain_request
     = Inr \<lparr>status = 402,
            headers =
              [(''Content-Type'', ''application/json''),
               (''PAYMENT-REQUIRED'',
                btoa (''{"x402Version":2,"accepts":[{"scheme":"exact","network":"eip155:8453",''
                      @ ''"amount":"3000000",''
                      @ ''"resource":"https://donate.example/api/donate/''
                      @ ''0x1111111111111111111111111111111111111111/base?amount=300",''
                      @ ''"description":"Donation of $3.00 to ''
                      @ ''0x1111111111111111111111111111111111111111",''
                      @ ''"mimeType":"application/json",''
                      @ ''"payTo":"0x1111111111111111111111111111111111111111",''
                      @ ''"maxTimeoutSeconds":300,''
                      @ ''"asset":"0x833589fCD6eDb6E08f4c7C32D4f71b54bdA02913",''
                      @ ''"extra":{"name":"USD Coin","version":"2"}}],''
                      @ ''"error":"Payment Required"}''))],
            body = ''{"error":"Payment Required"}''\<rparr>\<close>
proof -
  have v: "valid_recipient some_recipient" by code_simp
  have a: "amountCents_of plain_request = Fin 300" "(1::int) \<le> 300" by code_simp+
  have p: "buildPaymentRequirements some_recipient ''base'' (Fin 300) (url plain_request)
           = Inr paying_requirements"
    by code_simp
  have b: \<open>the (JSON_stringify (JObj [(''error'', JStr ''Payment Required'')]))
           = ''{"error":"Payment Required"}''\<close>
    by code_simp
  have h: \<open>the (JSON_stringify
                (JObj [(''x402Version'', JNum (Fin 2)),
                       (''accepts'', JArr (map requirement_json paying_requirements)),
                       (''error'', JStr ''Payment Required'')]))
           = ''{"x402Version":2,"accepts":[{"scheme":"exact","network":"eip155:8453",''
                      @ ''"amount":"3000000",''
                      @ ''"resource":"https://donate.example/api/donate/''
                      @ ''0x1111111111111111111111111111111111111111/base?amount=300",''
                      @ ''"description":"Donation of $3.00 to ''
                      @ ''0x1111111111111111111111111111111111111111",''
                      @ ''"mimeType":"application/json",''
                      @ ''"payTo":"0x1111111111111111111111111111111111111111",''
                      @ ''"maxTimeoutSeconds":300,''
                      @ ''"asset":"0x833589fCD6eDb6E08f4c7C32D4f71b54bdA02913",''
                      @ ''"extra":{"name":"USD Coin","version":"2"}}],''
                      @ ''"error":"Payment Required"}''\<close>
    by code_simp
  from challenge_response [OF v base_configured a] obtain paymentRequirements
    where 1: "buildPaymentRequirements some_recipient ''base'' (Fin 300) (url plain_request)
                = Inr paymentRequirements"
      and 2: "GET some_recipient ''base'' plain_request
                = Inr \<lparr>status = 402,
                    headers =
                      [(''Content-Type'', ''application/json''),
                       (''PAYMENT-REQUIRED'',
                        btoa (the (JSON_stringify
                                (JObj [(''x402Version'', JNum (Fin 2)),
                                       (''accepts'', JArr (map requirement_json paymentRequirements)),
                                       (''error'', JStr ''Payment Required'')]))))],
                    body = the (JSON_stringify (JObj [(''error'', JStr ''Payment Required'')]))\<rparr>"
    by blast
  from 1 p have e: "paymentRequirements = paying_requirements" by simp
  show ?thesis by (simp only: 2 e b h)
qed

text \<open>
  The claim as stated names the first property \<^verbatim>\<open>protocolVersion\<close>. The header is not
  the encoding of that object: the serialisation starts \<^verbatim>\<open>{"x402Version":2\<close>.
\<close>

theorem protocolVersion_counterexample:
  \<open>map_sum id status (GET some_recipient ''base'' plain_request) = Inr 402
   \<and> map_sum id headers (GET some_recipient ''base'' plain_request)
     \<noteq> Inr [(''Content-Type'', ''application/json''),
             (''PAYMENT-REQUIRED'',
              btoa (the (JSON_stringify
                      (JObj [(''protocolVersion'', JNum (Fin 2)),
                             (''accepts'', JArr (map requirement_json paying_requirements)),
                             (''error'', JStr ''Payment Required'')]))))]
   \<and> take 16 (the (JSON_stringify
                (JObj [(''x402Version'', JNum (Fin 2)),
                       (''accepts'', JArr (map requirement_json paying_requirements)),
                       (''error'', JStr ''Payment Required'')])))
     = ''{"x402Version":2''\<close>
  by code_simp

subsection \<open>POST without a payment header\<close>

text \<open>
  Claim C6 fails on the code: POST without a payment header does not answer as GET does
  for every recipient and amount. GET refuses the recipient \<^verbatim>\<open>0xZZZZ\<close> and the amount
  \<^verbatim>\<open>0\<close> with HTTP 400; POST checks neither and issues a 402 challenge for both.
  (\<open>POST_without_header_is_GET\<close> above: the two agree on what passes GET's checks.)
\<close>

theorem POST_skips_validation:
  "GET ''0xZZZZ'' ''base'' plain_request
     = Inr (Response_json [(''error'', JStr ''Invalid recipient address'')] 400)
   \<and> map_sum id status (fst (POST settling_facilitator ''0xZZZZ'' ''base'' plain_request)) = Inr 402
   \<and> map payTo (projr (buildPaymentRequirements ''0xZZZZ'' ''base'' (Fin 300) (url plain_request)))
       = [''0xZZZZ'']
   \<and> POST settling_facilitator ''0xZZZZ'' ''base'' plain_request
       = (Inr (createPaymentRequiredResponse
                 (projr (buildPaymentRequirements ''0xZZZZ'' ''base'' (Fin 300) (url plain_request)))),
          [])
   \<and> GET some_recipient ''base'' (plain_request\<lparr>amount_param := Some ''0''\<rparr>)
       = Inr (Response_json [(''error'', JStr ''Invalid amount'')] 400)
   \<and> map_sum id status
         (fst (POST settling_facilitator some_recipient ''base''
                 (plain_request\<lparr>amount_param := Some ''0''\<rparr>))) = Inr 402"
  by code_simp

subsection \<open>What the GET handler refuses\<close>

text \<open>
  Claim C7 fails on the code: an amount that is no number is not refused. \<^verbatim>\<open>parseInt\<close>
  gives NaN, \<^verbatim>\<open>NaN < 1\<close> is false, and GET issues a 402 challenge whose amount is
  \<^verbatim>\<open>"NaN"\<close>. (\<open>GET_invalid_recipient\<close> and \<open>GET_amount_below_1\<close> above are the two
  refusals the handler does make.)
\<close>

theorem non_numeric_amount_is_challenged:
  "parseInt ''abc'' = NaN
   \<and> \<not> less_than_1 NaN
   \<and> map_sum id status (GET some_recipient ''base'' (plain_request\<lparr>amount_param := Some ''abc''\<rparr>))
       = Inr 402
   \<and> GET some_recipient ''base'' (plain_request\<lparr>amount_param := Some ''abc''\<rparr>)
       = Inr (createPaymentRequiredResponse
                (projr (buildPaymentRequirements some_recipient ''base'' NaN (url plain_request))))
   \<and> map amount (projr (buildPaymentRequirements some_recipient ''base'' NaN (url plain_request)))
       = [''NaN'']"
  by code_simp

subsection \<open>The response to a settled payment\<close>




subsection \<open>The API key of the facilitator\<close>

text \<open>
  Claim C9 fails on the code: with \<^verbatim>\<open>FACILITATOR_API_KEY\<close> set in the process
  environment, neither facilitator call carries \<^verbatim>\<open>X-API-KEY\<close>. The handler takes the key
  from \<^verbatim>\<open>getServerEnv()\<close>, which returns \<^verbatim>\<open>FACILITATOR_URL\<close> alone
  (\<open>fetch_headers_facilitator_call\<close> above: the headers are the same in every environment).
\<close>

theorem api_key_never_attached:
  "process_env keyed_facilitator ''FACILITATOR_API_KEY'' = Some ''secret-key''
   \<and> map fetch_url (snd (POST keyed_facilitator some_recipient ''base'' paying_request))
       = [''https://x402.org/facilitator/verify'', ''https://x402.org/facilitator/settle'']
   \<and> map fetch_headers (snd (POST keyed_facilitator some_recipient ''base'' paying_request))
       = [[(''Content-Type'', ''application/json'')], [(''Content-Type'', ''application/json'')]]"
  by code_simp

subsection \<open>The payment header\<close>

text \<open>
  Claim C10, amended. On a network the handler does not refuse: when the request has a
  \<^verbatim>\<open>PAYMENT-SIGNATURE\<close> header with a value that is not empty, that value is the payment
  proof the handler redeems, whatever \<^verbatim>\<open>X-PAYMENT\<close> holds; the value of \<^verbatim>\<open>X-PAYMENT\<close>
  is used when \<^verbatim>\<open>PAYMENT-SIGNATURE\<close> is absent or empty and \<^verbatim>\<open>X-PAYMENT\<close> is not. Header
  names are matched without regard to case, in the request and in the lookup.
\<close>

theorem payment_header_priority:
  assumes "NETWORK_CONFIG network_name \<noteq> Missing"
  shows "(present (headers_get (request_headers req) ''PAYMENT-SIGNATURE'')
          \<longrightarrow> POST pf recipient network_name req
                = catch_block (redeem pf recipient network_name (amountCents_of req) (url req)
                                 (the (headers_get (request_headers req) ''PAYMENT-SIGNATURE''))))
       \<and> (\<not> present (headers_get (request_headers req) ''PAYMENT-SIGNATURE'')
          \<and> present (headers_get (request_headers req) ''X-PAYMENT'')
          \<longrightarrow> POST pf recipient network_name req
                = catch_block (redeem pf recipient network_name (amountCents_of req) (url req)
                                 (the (headers_get (request_headers req) ''X-PAYMENT''))))
       \<and> (\<forall>hs name. headers_get (map (\<lambda>h. (map to_lower (fst h), snd h)) hs)
                       (map to_lower name)
                     = headers_get hs name)"
  using assms
  by (simp add: POST_def paymentHeader_of_eq or_else_def headers_get_lower)

text \<open>A request with both headers in mixed case, and one with the legacy header alone.\<close>

theorem payment_header_priority_witness:
  "POST settling_facilitator some_recipient ''base'' both_headers_request
     = catch_block (redeem settling_facilitator some_recipient ''base'' (Fin 300)
                      (url plain_request) ''eyJ4IjoxfQ=='')
   \<and> POST settling_facilitator some_recipient ''base'' legacy_request
     = catch_block (redeem settling_facilitator some_recipient ''base'' (Fin 300)
                      (url plain_request) ''eyJ4IjoxfQ=='')"
proof -
  have n: "NETWORK_CONFIG ''base'' \<noteq> Missing"
    by (simp add: base_configured)
  have b: "present (headers_get (request_headers both_headers_request) ''PAYMENT-SIGNATURE'')"
    "the (headers_get (request_headers both_headers_request) ''PAYMENT-SIGNATURE'')
       = ''eyJ4IjoxfQ==''"
    "amountCents_of both_headers_request = Fin 300"
    "url both_headers_request = url plain_request"
    by code_simp+
  have l: "\<not> present (headers_get (request_headers legacy_request) ''PAYMENT-SIGNATURE'')
           \<and> present (headers_get (request_headers legacy_request) ''X-PAYMENT'')"
    "the (headers_get (request_headers legacy_request) ''X-PAYMENT'') = ''eyJ4IjoxfQ==''"
    "amountCents_of legacy_request = Fin 300"
    "url legacy_request = url plain_request"
    by code_simp+
  from payment_header_priority [OF n, THEN conjunct1, rule_format, OF b(1)]
       payment_header_priority [OF n, THEN conjunct2, THEN conjunct1, rule_format, OF l(1)]
  show ?thesis
    by (simp add: b l)
qed

text \<open>
  The claim as stated uses \<^verbatim>\<open>X-PAYMENT\<close> only when \<^verbatim>\<open>PAYMENT-SIGNATURE\<close> is absent. A
  request that carries \<^verbatim>\<open>PAYMENT-SIGNATURE\<close> with an empty value and \<^verbatim>\<open>X-PAYMENT\<close> has the
  value of \<^verbatim>\<open>X-PAYMENT\<close> redeemed: \<^verbatim>\<open>||\<close> takes the empty string for false.
\<close>

theorem empty_signature_counterexample:
  "headers_get (request_headers empty_signature_request) ''PAYMENT-SIGNATURE'' = Some []
   \<and> headers_get (request_headers empty_signature_request) ''X-PAYMENT'' = Some ''eyJ4IjoxfQ==''
   \<and> paymentHeader_of empty_signature_request = Some ''eyJ4IjoxfQ==''
   \<and> POST settling_facilitator some_recipient ''base'' empty_signature_request
       = catch_block (redeem settling_facilitator some_recipient ''base'' (Fin 300)
                        (url plain_request) ''eyJ4IjoxfQ=='')"
  by code_simp

end
